theory Spec2Isabelle
  imports Main "HOL-Library.Sublist" "HOL-Library.AList" "HOL-Library.Char_ord"
    "HOL-Library.List_Lexorder"
begin

section \<open>Schema discovery and instruction generation (agent\_instruction\_generator.py)\<close>

text \<open>
  Python values are modelled as follows. A \<open>str\<close> is a \<^typ>\<open>string\<close>; the two
  occurrences of the typographic apostrophe U+2019 in the preamble are written as the three
  bytes of their UTF-8 encoding. A \<open>dict\<close> is an association list with distinct keys in
  insertion order (iteration order of \<open>.items()\<close>), written to with \<^const>\<open>AList.update\<close>.
  A function that may raise returns \<open>error + 'a\<close>, with \<open>Inl\<close> the exception; a function
  that may also loop forever returns an \<open>option\<close> of that, with \<open>None\<close> for "never returns".
  The services behind boto3 (Athena, S3), the file system and pandas are not code of the
  repository: what they answer is an input of the model.
\<close>

subsection \<open>Exceptions and results\<close>

datatype error =
    Exception string     \<comment> \<open>\<open>raise Exception(message)\<close>\<close>
  | IndexError           \<comment> \<open>subscript \<open>[0]\<close> of an empty list\<close>
  | KeyError string      \<comment> \<open>subscript of a dict at a missing key\<close>
  | ReadError            \<comment> \<open>an exception raised inside \<open>pd.read_csv\<close>\<close>

type_synonym 'a result = "(error + 'a) option"

definition returns :: "'a \<Rightarrow> 'a result" where
  "returns x = Some (Inr x)"

definition raises :: "error \<Rightarrow> 'a result" where
  "raises e = Some (Inl e)"

text \<open>Sequencing: an exception or a divergence of the first computation is the outcome.\<close>

definition bind_result :: "'a result \<Rightarrow> ('a \<Rightarrow> 'b result) \<Rightarrow> 'b result" where
  "bind_result m f =
     (case m of None \<Rightarrow> None | Some (Inl e) \<Rightarrow> Some (Inl e) | Some (Inr x) \<Rightarrow> f x)"

subsection \<open>The Athena client\<close>

text \<open>
  \<open>start_query_execution\<close> answers an execution id for a request;
  \<open>get_query_execution c qid n\<close> is the state string answered by the \<open>n\<close>-th status call
  (counted from 0) made for execution \<open>qid\<close>; \<open>get_query_results\<close> answers the rows of the
  result set. Each row is its list \<open>Data\<close> of cells, and a cell is the optional entry
  \<open>VarCharValue\<close> of the cell's dict. Every call of the client is taken to answer: the
  source has no handler around these calls, so an exception of boto3 itself would leave the
  functions below at the call. An execution is polled by one wait, from its first status call.
\<close>

record query_request =
  QueryString :: string
  Database :: string
  OutputLocation :: string

type_synonym datum = "string option"
type_synonym row = "datum list"

record athena_client =
  start_query_execution :: "query_request \<Rightarrow> string"
  get_query_execution :: "string \<Rightarrow> nat \<Rightarrow> string"
  get_query_results :: "string \<Rightarrow> row list"

subsection \<open>\_wait\_for\_query\_execution\<close>

definition terminal_states :: "string list" where
  "terminal_states = [''SUCCEEDED'', ''FAILED'', ''CANCELLED'']"

text \<open>
  The \<open>while True\<close> loop. \<open>n\<close> counts the status calls made so far and \<open>slept\<close> adds up the
  arguments of \<open>time.sleep\<close>. The loop leaves with the state that ended it.
\<close>

partial_function (option) wait_loop ::
  "athena_client \<Rightarrow> string \<Rightarrow> nat \<Rightarrow> nat \<Rightarrow> (string \<times> nat \<times> nat) option" where
  "wait_loop athena_client query_execution_id n slept =
     (let state = get_query_execution athena_client query_execution_id n in
      if state \<in> set terminal_states then Some (state, Suc n, slept)
      else wait_loop athena_client query_execution_id (Suc n) (slept + 1))"

definition wait_for_query_execution :: "athena_client \<Rightarrow> string \<Rightarrow> unit result" where
  "wait_for_query_execution athena_client query_execution_id =
     (case wait_loop athena_client query_execution_id 0 0 of
        None \<Rightarrow> None
      | Some (state, calls, slept) \<Rightarrow>
          if state \<noteq> ''SUCCEEDED''
          then raises (Exception (''Query failed with state '' @ state))
          else returns ())"

subsection \<open>get\_all\_tables and get\_table\_schema\<close>

text \<open>\<open>row['Data'][0]['VarCharValue']\<close>\<close>

fun first_cell :: "row \<Rightarrow> error + string" where
  "first_cell [] = Inl IndexError"
| "first_cell (None # cells) = Inl (KeyError ''VarCharValue'')"
| "first_cell (Some v # cells) = Inr v"

text \<open>The list comprehension over \<open>rows\<close>: the first exception ends it.\<close>

fun first_cells :: "row list \<Rightarrow> error + string list" where
  "first_cells [] = Inr []"
| "first_cells (r # rs) =
     (case first_cell r of
        Inl e \<Rightarrow> Inl e
      | Inr v \<Rightarrow> (case first_cells rs of Inl e \<Rightarrow> Inl e | Inr vs \<Rightarrow> Inr (v # vs)))"

text \<open>\<open>Rows[1:]\<close>: the slice of an empty list is the empty list.\<close>

definition slice_from_1 :: "'a list \<Rightarrow> 'a list" where
  "slice_from_1 xs = drop 1 xs"

definition athena_output_of :: "string \<Rightarrow> string" where
  "athena_output_of env =
     (if env = ''poc'' then ''athena-destination-store-texttosql''
      else ''athena-destination-chatbot'')"

definition get_all_tables :: "athena_client \<Rightarrow> string \<Rightarrow> string \<Rightarrow> string list result" where
  "get_all_tables athena_client database_name athena_results_bucket =
     (let query = ''SHOW TABLES IN '' @ database_name;
          query_execution_id = start_query_execution athena_client
            \<lparr>QueryString = query, Database = database_name,
             OutputLocation = ''s3://'' @ athena_results_bucket @ ''/''\<rparr>
      in bind_result (wait_for_query_execution athena_client query_execution_id)
           (\<lambda>_. Some (first_cells
                 (slice_from_1 (get_query_results athena_client query_execution_id)))))"

definition get_table_schema ::
  "athena_client \<Rightarrow> string \<Rightarrow> string \<Rightarrow> string \<Rightarrow> string list result" where
  "get_table_schema athena_client database_name table_name env =
     (let athena_output = athena_output_of env;
          query = ''DESCRIBE '' @ database_name @ ''.'' @ table_name;
          query_execution_id = start_query_execution athena_client
            \<lparr>QueryString = query, Database = database_name,
             OutputLocation = ''s3://'' @ athena_output @ ''/''\<rparr>
      in bind_result (wait_for_query_execution athena_client query_execution_id)
           (\<lambda>_. Some (first_cells
                 (slice_from_1 (get_query_results athena_client query_execution_id)))))"

subsection \<open>generate\_instruction\<close>

type_synonym 'v dict = "(string \<times> 'v) list"

text \<open>
  The value stored per folder or table: \<open>{'columns': [...], 'sample_data': ...}\<close>, where
  \<open>sample_data\<close> is a record (a dict from column name to value) or Python's \<open>None\<close>.
\<close>

record 'v folder_context =
  columns :: "string list"
  sample_data :: "'v dict option"

text \<open>\<open>sep.join(parts)\<close>\<close>

fun join :: "string \<Rightarrow> string list \<Rightarrow> string" where
  "join sep [] = []"
| "join sep [x] = x"
| "join sep (x # y # ys) = x @ sep @ join sep (y # ys)"

definition apostrophe_U2019 :: string where
  "apostrophe_U2019 = [CHR 0xE2, CHR 0x80, CHR 0x99]"

definition instruction_parts :: "string \<Rightarrow> string list" where
  \<open>instruction_parts database_name =
    [''Role: You are an advanced database querying agent crafted specifically for '' @
     ''generating precise SQL queries for Amazon Athena concerning the '' @ database_name @ ''.'',
     ''Objective: Generate SQL queries to return data based on the provided schema '' @
     ''and user request. Ultimately, answer the user's question regarding the data '' @
     ''generated using SQL Query.'',
     ''1. Query Decomposition and Understanding:'',
     ''- Analyze the user'' @ apostrophe_U2019 @ ''s request to understand the main objective.'',
     ''- Break down requests into sub-queries that can each address a part of the '' @
     ''user's request, using the schema provided.'',
     ''2. SQL Query Creation:'',
     ''- For each sub-query, use the relevant tables and fields from the provided schema.'',
     ''- Construct SQL queries that are precise and tailored to retrieve the exact '' @
     ''data required by the user'' @ apostrophe_U2019 @ ''s request.'',
     ''- Use table joins when combining data from two or more tables based on related '' @
     ''columns. For example, if data is split across multiple tables, each containing '' @
     ''different attributes about a common entity (such as building id), you may need '' @
     ''to use a table join. Table joins are also useful when filtering data based on '' @
     ''conditions that span multiple tables. Lastly, table joins are useful when '' @
     ''aggregating data from multiple tables or enriching a dataset with additional '' @
     ''context or descriptive information stored in another table. The types of joins '' @
     ''are: INNER JOIN, LEFT JOIN, RIGHT JOIN, and FULL JOIN.'',
     ''- Avoid joins if all the required data is available in a single table.'',
     ''3. Query Execution and Response:'',
     ''- Execute the constructed SQL queries against the Amazon Athena database.'',
     ''- Return the results of the SQL query in a format that answers the user's '' @
     ''question, ensuring data integrity and accuracy.'',
     ''If you get the following Lambda error:'',
     ''<lambda_error>'',
     ''Lambda response exceeds maximum size 25KB: 123644'',
     ''</lambda_error>'',
     ''Then: LIMIT to 10 rows.'',
     ''The following examples illustrate the kind of queries you should be able to '' @
     ''construct based on the available data:'']\<close>

text \<open>\<open>', '.join([f'"{col}"' for col in columns])\<close>\<close>

definition quoted_columns :: "string list \<Rightarrow> string" where
  \<open>quoted_columns cols = join '', '' (map (\<lambda>col. ''"'' @ col @ ''"'') cols)\<close>

text \<open>The line appended for one table, from its name and its column names.\<close>

definition example_line :: "string \<Rightarrow> string list \<Rightarrow> string" where
  \<open>example_line table_name cols =
     (let sample_query = ''SELECT '' @ quoted_columns cols @ '' FROM "'' @ table_name @ ''" LIMIT 5;''
      in ''- Table `'' @ table_name @ ''` example query: '' @ sample_query)\<close>

text \<open>The loop over \<open>data_context.items()\<close>.\<close>

fun append_context_lines :: "'v folder_context dict \<Rightarrow> string list \<Rightarrow> string list" where
  "append_context_lines [] parts = parts"
| "append_context_lines ((folder, context) # items) parts =
     append_context_lines items (parts @ [example_line folder (columns context)])"

text \<open>The loop over \<open>tables\<close>: one \<open>DESCRIBE\<close> query per table; a failing one ends the loop.\<close>

fun append_table_lines ::
  "athena_client \<Rightarrow> string \<Rightarrow> string \<Rightarrow> string list \<Rightarrow> string list \<Rightarrow> string list result" where
  "append_table_lines athena_client database_name env [] parts = returns parts"
| "append_table_lines athena_client database_name env (table_name # tables) parts =
     bind_result (get_table_schema athena_client database_name table_name env)
       (\<lambda>cols. append_table_lines athena_client database_name env tables
                 (parts @ [example_line table_name cols]))"

text \<open>
  \<open>if data_context:\<close> is Python's truth test: \<open>None\<close> and the empty dict are both false.
  The Athena client, which the source builds with \<open>boto3.client('athena')\<close>, is a parameter.
\<close>

definition truthy :: "'v folder_context dict option \<Rightarrow> bool" where
  "truthy data_context = (case data_context of None \<Rightarrow> False | Some d \<Rightarrow> d \<noteq> [])"

definition generate_instruction ::
  "athena_client \<Rightarrow> string \<Rightarrow> 'v folder_context dict option \<Rightarrow> string \<Rightarrow> string result" where
  "generate_instruction athena_client database_name data_context env =
     (let instruction_parts = instruction_parts database_name;
          athena_output = athena_output_of env
      in if truthy data_context
         then returns (join '' '' (append_context_lines (the data_context) instruction_parts))
         else bind_result (get_all_tables athena_client database_name athena_output)
                (\<lambda>tables.
                   bind_result (append_table_lines athena_client database_name env tables
                                  instruction_parts)
                     (\<lambda>parts. returns (join '' '' parts))))"

subsection \<open>process\_folder\<close>

text \<open>\<open>s.endswith(suffix)\<close>\<close>

definition endswith :: "string \<Rightarrow> string \<Rightarrow> bool" where
  "endswith s suf = (length suf \<le> length s \<and> drop (length s - length suf) s = suf)"

text \<open>
  What \<open>json.loads\<close> returns. A JSON object arrives as a Python dict; a number is kept as
  its literal.
\<close>

datatype json =
    JNull
  | JBool bool
  | JNumber string
  | JString string
  | JArray "json list"
  | JObject "(string \<times> json) list"

text \<open>
  What happens at one step of \<open>for line in gz\<close>. \<open>OtherException\<close> is any exception that
  is not a \<open>json.JSONDecodeError\<close>: a \<open>UnicodeDecodeError\<close> of \<open>line.decode('utf-8')\<close>, or an
  error of the gzip stream when the next line is read. The inner handler does not catch it,
  so the outer handler ends the work on the object.
\<close>

datatype line_outcome =
    Decoded json
  | JSONDecodeError
  | OtherException

text \<open>
  What \<open>get_object\<close> answers for a key: the call fails, or the body is read as a sequence
  of line steps. A body that is not gzip data is \<open>GzipLines [OtherException]\<close>.
\<close>

datatype s3_body =
    GetObjectFails
  | GzipLines "line_outcome list"

text \<open>
  A page of the listing is the list of the keys under \<open>'Contents'\<close>, or \<open>None\<close> when the
  page has no such entry. \<open>paginate c bucket prefix\<close> are the pages listed with delimiter
  \<open>'/'\<close>.
\<close>

type_synonym page = "string list option"

record s3_client =
  paginate :: "string \<Rightarrow> string \<Rightarrow> page list"
  get_object :: "string \<Rightarrow> string \<Rightarrow> s3_body"

text \<open>\<open>page.get('Contents', [])\<close>\<close>

definition contents :: "page \<Rightarrow> string list" where
  "contents page = (case page of None \<Rightarrow> [] | Some objs \<Rightarrow> objs)"

text \<open>
  The dict \<open>folder_context\<close> while the scan runs: \<open>'columns'\<close> is a Python set then.
\<close>

record folder_scan =
  columns_set :: "string set"
  sample :: "json dict option"

text \<open>The body of the inner \<open>try\<close> once \<open>json.loads\<close> has returned; the \<open>print\<close> is not modelled.\<close>

definition process_value :: "folder_scan \<Rightarrow> json \<Rightarrow> folder_scan" where
  "process_value fc json_data =
     (case json_data of
        JObject d \<Rightarrow>
          fc\<lparr>sample := (if sample fc = None then Some d else sample fc),
             columns_set := columns_set fc \<union> set (map fst d)\<rparr>
      | _ \<Rightarrow> fc)"

fun process_lines :: "folder_scan \<Rightarrow> line_outcome list \<Rightarrow> folder_scan" where
  "process_lines fc [] = fc"
| "process_lines fc (Decoded json_data # lines) = process_lines (process_value fc json_data) lines"
| "process_lines fc (JSONDecodeError # lines) = process_lines fc lines"
| "process_lines fc (OtherException # lines) = fc"

definition process_object :: "s3_client \<Rightarrow> string \<Rightarrow> folder_scan \<Rightarrow> string \<Rightarrow> folder_scan" where
  "process_object s3_client bucket_name fc key =
     (if endswith key ''.json.gz''
      then (case get_object s3_client bucket_name key of
              GetObjectFails \<Rightarrow> fc
            | GzipLines lines \<Rightarrow> process_lines fc lines)
      else fc)"

fun process_objects ::
  "s3_client \<Rightarrow> string \<Rightarrow> folder_scan \<Rightarrow> string list \<Rightarrow> folder_scan" where
  "process_objects s3_client bucket_name fc [] = fc"
| "process_objects s3_client bucket_name fc (key # keys) =
     process_objects s3_client bucket_name (process_object s3_client bucket_name fc key) keys"

fun process_pages :: "s3_client \<Rightarrow> string \<Rightarrow> folder_scan \<Rightarrow> page list \<Rightarrow> folder_scan" where
  "process_pages s3_client bucket_name fc [] = fc"
| "process_pages s3_client bucket_name fc (page # pages) =
     process_pages s3_client bucket_name
       (process_objects s3_client bucket_name fc (contents page)) pages"

text \<open>
  \<open>list(folder_context['columns'])\<close> lists a Python set in an order the language does not
  fix: the listing is the parameter \<open>list_of_set\<close>.
\<close>

definition process_folder ::
  "(string set \<Rightarrow> string list) \<Rightarrow> s3_client \<Rightarrow> string \<Rightarrow> string \<Rightarrow> json folder_context" where
  "process_folder list_of_set s3_client bucket_name folder_name =
     (let fc = process_pages s3_client bucket_name \<lparr>columns_set = {}, sample = None\<rparr>
                 (paginate s3_client bucket_name folder_name)
      in \<lparr>columns = list_of_set (columns_set fc), sample_data = sample fc\<rparr>)"

text \<open>
  The mapping records that the scan decodes, in the order of the scan: the dicts returned
  by \<open>json.loads\<close> for the lines that are reached.
\<close>

fun decoded_lines :: "line_outcome list \<Rightarrow> json dict list" where
  "decoded_lines [] = []"
| "decoded_lines (Decoded json_data # lines) =
     (case json_data of JObject d \<Rightarrow> d # decoded_lines lines | _ \<Rightarrow> decoded_lines lines)"
| "decoded_lines (JSONDecodeError # lines) = decoded_lines lines"
| "decoded_lines (OtherException # lines) = []"

definition decoded_object :: "s3_client \<Rightarrow> string \<Rightarrow> string \<Rightarrow> json dict list" where
  "decoded_object s3_client bucket_name key =
     (if endswith key ''.json.gz''
      then (case get_object s3_client bucket_name key of
              GetObjectFails \<Rightarrow> []
            | GzipLines lines \<Rightarrow> decoded_lines lines)
      else [])"

definition decoded_records :: "s3_client \<Rightarrow> string \<Rightarrow> string \<Rightarrow> json dict list" where
  "decoded_records s3_client bucket_name folder_name =
     concat (map (decoded_object s3_client bucket_name)
       (concat (map contents (paginate s3_client bucket_name folder_name))))"

definition keys :: "'v dict \<Rightarrow> string set" where
  "keys d = set (map fst d)"

subsection \<open>analyze\_csv\_files\<close>

text \<open>
  A path below the root folder is the list of its components. \<open>walk\<close> is what
  \<open>os.walk(root_folder)\<close> yields: for each directory visited, its path below the root and its
  file names. \<open>read_csv\<close> is what \<open>pd.read_csv\<close> does with the file at a path: it raises,
  or it returns a frame, given by its column names and by its rows as
  \<open>to_dict(orient='records')\<close> lists them.
\<close>

record 'v data_frame =
  df_columns :: "string list"
  df_records :: "'v dict list"

record 'v file_system =
  walk :: "(string list \<times> string list) list"
  read_csv :: "string list \<Rightarrow> error + 'v data_frame"

text \<open>\<open>s.replace(' ', '_')\<close>\<close>

definition replace_spaces :: "string \<Rightarrow> string" where
  "replace_spaces s = map (\<lambda>c. if c = CHR '' '' then CHR ''_'' else c) s"

text \<open>
  \<open>os.path.relpath(file_path, start=root_folder).split(os.sep)[0].replace(' ', '_')\<close> for
  the file \<open>file\<close> in the directory \<open>dirpath\<close> below the root.
\<close>

definition relative_key :: "string list \<Rightarrow> string \<Rightarrow> string" where
  "relative_key dirpath file = replace_spaces (hd (dirpath @ [file]))"

fun analyze_files ::
  "'v file_system \<Rightarrow> string list \<Rightarrow> string list \<Rightarrow> 'v folder_context dict
     \<Rightarrow> error + 'v folder_context dict" where
  "analyze_files fs dirpath [] data_context = Inr data_context"
| "analyze_files fs dirpath (file # filenames) data_context =
     (if endswith file ''.csv''
      then (case read_csv fs (dirpath @ [file]) of
              Inl e \<Rightarrow> Inl e
            | Inr df \<Rightarrow>
                (case take 1 (df_records df) of
                   [] \<Rightarrow> Inl IndexError
                 | first_record # _ \<Rightarrow>
                     analyze_files fs dirpath filenames
                       (AList.update (relative_key dirpath file)
                          \<lparr>columns = df_columns df, sample_data = Some first_record\<rparr>
                          data_context)))
      else analyze_files fs dirpath filenames data_context)"

fun analyze_dirs ::
  "'v file_system \<Rightarrow> (string list \<times> string list) list \<Rightarrow> 'v folder_context dict
     \<Rightarrow> error + 'v folder_context dict" where
  "analyze_dirs fs [] data_context = Inr data_context"
| "analyze_dirs fs ((dirpath, filenames) # dirs) data_context =
     (case analyze_files fs dirpath filenames data_context of
        Inl e \<Rightarrow> Inl e
      | Inr data_context' \<Rightarrow> analyze_dirs fs dirs data_context')"

definition analyze_csv_files :: "'v file_system \<Rightarrow> error + 'v folder_context dict" where
  "analyze_csv_files fs = analyze_dirs fs (walk fs) []"

subsection \<open>Notions used to state the properties\<close>

text \<open>The execution ids under which the two readers start their query.\<close>

definition tables_query_id :: "athena_client \<Rightarrow> string \<Rightarrow> string \<Rightarrow> string" where
  "tables_query_id c database_name athena_results_bucket =
     start_query_execution c
       \<lparr>QueryString = ''SHOW TABLES IN '' @ database_name, Database = database_name,
        OutputLocation = ''s3://'' @ athena_results_bucket @ ''/''\<rparr>"

definition schema_query_id :: "athena_client \<Rightarrow> string \<Rightarrow> string \<Rightarrow> string \<Rightarrow> string" where
  "schema_query_id c database_name table_name env =
     start_query_execution c
       \<lparr>QueryString = ''DESCRIBE '' @ database_name @ ''.'' @ table_name,
        Database = database_name,
        OutputLocation = ''s3://'' @ athena_output_of env @ ''/''\<rparr>"

text \<open>
  The \<open>k\<close>-th status call is the first to answer a terminal state.
\<close>

definition first_terminal_at :: "athena_client \<Rightarrow> string \<Rightarrow> nat \<Rightarrow> bool" where
  "first_terminal_at c qid k =
     (get_query_execution c qid k \<in> set terminal_states \<and>
      (\<forall>j \<in> set [0..<k]. get_query_execution c qid j \<notin> set terminal_states))"

definition first_terminal :: "athena_client \<Rightarrow> string \<Rightarrow> nat" where
  "first_terminal c qid = (LEAST k. get_query_execution c qid k \<in> set terminal_states)"

text \<open>A row whose first cell exists and carries a \<open>VarCharValue\<close>.\<close>

definition has_first_value :: "row \<Rightarrow> bool" where
  "has_first_value r = (case r of Some v # cells \<Rightarrow> True | _ \<Rightarrow> False)"

text \<open>The first element of a list, if there is one.\<close>

definition first_of :: "'a list \<Rightarrow> 'a option" where
  "first_of xs = (case xs of [] \<Rightarrow> None | x # _ \<Rightarrow> Some x)"

text \<open>What a sequence of decoded mapping records does to the scan state.\<close>

fun absorb :: "folder_scan \<Rightarrow> json dict list \<Rightarrow> folder_scan" where
  "absorb fc [] = fc"
| "absorb fc (d # ds) = absorb (process_value fc (JObject d)) ds"

text \<open>Three lines that decode to the mapping records \<open>d1\<close>, \<open>d2\<close>, \<open>d3\<close>.\<close>

definition three_valid :: "json dict \<Rightarrow> json dict \<Rightarrow> json dict \<Rightarrow> line_outcome list" where
  "three_valid d1 d2 d3 = [Decoded (JObject d1), Decoded (JObject d2), Decoded (JObject d3)]"

text \<open>
  The tabular files in the order in which \<open>analyze_csv_files\<close> meets them, each as its
  directory below the root and its name; the entry that one file writes; and the last file
  of a list that is keyed by \<open>k\<close>.
\<close>

definition csv_paths :: "'v file_system \<Rightarrow> (string list \<times> string) list" where
  "csv_paths fs =
     concat (map (\<lambda>(dirpath, filenames).
                    map (\<lambda>file. (dirpath, file))
                      (filter (\<lambda>file. endswith file ''.csv'') filenames))
               (walk fs))"

definition context_of :: "'v file_system \<Rightarrow> string list \<times> string \<Rightarrow> 'v folder_context option" where
  "context_of fs p =
     (case read_csv fs (fst p @ [snd p]) of
        Inl e \<Rightarrow> None
      | Inr df \<Rightarrow>
          (case df_records df of
             [] \<Rightarrow> None
           | r # _ \<Rightarrow> Some \<lparr>columns = df_columns df, sample_data = Some r\<rparr>))"

definition last_with_key :: "string \<Rightarrow> (string list \<times> string) list \<Rightarrow> (string list \<times> string) option" where
  "last_with_key k ps =
     (let qs = filter (\<lambda>p. relative_key (fst p) (snd p) = k) ps
      in if qs = [] then None else Some (last qs))"

text \<open>What the files of a list leave under the key \<open>k\<close> of a dict that held \<open>init\<close> there.\<close>

definition written :: "'v file_system \<Rightarrow> string \<Rightarrow> (string list \<times> string) list
    \<Rightarrow> 'v folder_context option \<Rightarrow> 'v folder_context option" where
  "written fs k ps init =
     (case last_with_key k ps of None \<Rightarrow> init | Some p \<Rightarrow> context_of fs p)"

subsection \<open>Example environments\<close>

text \<open>
  An Athena service that names an execution by its query text, answers \<open>RUNNING\<close> twice
  and then the final state of the query, and a service whose queries never finish.
\<close>

definition example_client :: athena_client where
  "example_client =
     \<lparr>start_query_execution = QueryString,
      get_query_execution =
        (\<lambda>qid n. if n < 2 then ''RUNNING''
                 else if qid = ''DESCRIBE db.broken'' then ''FAILED''
                 else if qid = ''SHOW TABLES IN gone'' then ''CANCELLED''
                 else ''SUCCEEDED''),
      get_query_results =
        (\<lambda>qid. if qid = ''SHOW TABLES IN db'' then [[Some ''tab_name''], [Some ''trips'']]
               else if qid = ''SHOW TABLES IN empty'' then []
               else if qid = ''DESCRIBE db.bare'' then [[Some ''col_name'']]
               else [[Some ''col_name''], [Some ''id''], [Some ''fare'']])\<rparr>"

definition stuck_client :: athena_client where
  "stuck_client =
     \<lparr>start_query_execution = QueryString,
      get_query_execution = (\<lambda>qid n. ''RUNNING''),
      get_query_results = (\<lambda>qid. [])\<rparr>"

text \<open>
  A service on which every \<open>SHOW TABLES\<close> succeeds at once with the header row alone, and
  every \<open>DESCRIBE\<close> fails.
\<close>

definition tables_only_client :: athena_client where
  "tables_only_client =
     \<lparr>start_query_execution = QueryString,
      get_query_execution =
        (\<lambda>qid n. if take 8 qid = ''DESCRIBE'' then ''FAILED'' else ''SUCCEEDED''),
      get_query_results = (\<lambda>qid. [[Some ''tab_name'']])\<rparr>"

text \<open>
  A bucket whose folder \<open>trips/data/\<close> is listed in three pages, the second without
  \<open>Contents\<close>. Object \<open>a\<close> holds two records around a malformed line and a JSON array,
  \<open>b\<close> cannot be fetched, \<open>c\<close> breaks after its first record, \<open>notes.txt\<close> is not a
  compressed JSON object, and \<open>d\<close> holds one record.
\<close>

definition example_s3 :: s3_client where
  "example_s3 =
     \<lparr>paginate = (\<lambda>bucket prefix.
        [Some [''trips/data/a.json.gz'', ''trips/data/notes.txt''],
         None,
         Some [''trips/data/b.json.gz'', ''trips/data/c.json.gz'', ''trips/data/d.json.gz'']]),
      get_object = (\<lambda>bucket key.
        if key = ''trips/data/a.json.gz''
        then GzipLines [Decoded (JObject [(''id'', JNumber ''1''), (''fare'', JNumber ''7.5'')]),
                        JSONDecodeError,
                        Decoded (JArray [JNumber ''1'']),
                        Decoded (JObject [(''id'', JNumber ''2''), (''tip'', JNull)])]
        else if key = ''trips/data/b.json.gz'' then GetObjectFails
        else if key = ''trips/data/c.json.gz''
        then GzipLines [Decoded (JObject [(''zone'', JString ''north'')]),
                        OtherException,
                        Decoded (JObject [(''lost'', JBool True)])]
        else GzipLines [Decoded (JObject [(''id'', JNumber ''3''), (''city'', JString ''x'')])])\<rparr>"

text \<open>The same bucket, listing its pages and the keys of each page in the reverse order.\<close>

definition reversed_listing :: "s3_client \<Rightarrow> s3_client" where
  "reversed_listing c =
     c\<lparr>paginate := (\<lambda>bucket prefix. rev (map (map_option rev) (paginate c bucket prefix)))\<rparr>"

text \<open>A bucket that lists one compressed JSON object, read as the given line steps.\<close>

definition one_object_s3 :: "line_outcome list \<Rightarrow> s3_client" where
  "one_object_s3 lines =
     \<lparr>paginate = (\<lambda>bucket prefix. [Some [''trips/data/part-0.json.gz'']]),
      get_object = (\<lambda>bucket key. GzipLines lines)\<rparr>"

text \<open>
  A root folder with one tabular file of its own and three below the subdirectory
  \<open>my data\<close>, one of them one level deeper; the cells are kept as text.
\<close>

definition example_fs :: "string file_system" where
  "example_fs =
     \<lparr>walk = [([], [''top level.csv'', ''readme.md'']),
              ([''my data''], [''a.csv'', ''b.csv'']),
              ([''my data'', ''deep''], [''c.csv''])],
      read_csv = (\<lambda>path.
        if path = [''top level.csv'']
        then Inr \<lparr>df_columns = [''t''], df_records = [[(''t'', ''0'')]]\<rparr>
        else if path = [''my data'', ''a.csv'']
        then Inr \<lparr>df_columns = [''x'', ''y''],
                  df_records = [[(''x'', ''1''), (''y'', ''2'')], [(''x'', ''3''), (''y'', ''4'')]]\<rparr>
        else if path = [''my data'', ''b.csv'']
        then Inr \<lparr>df_columns = [''z''], df_records = [[(''z'', ''5'')]]\<rparr>
        else Inr \<lparr>df_columns = [''u'', ''v''], df_records = [[(''u'', ''6''), (''v'', ''7'')]]\<rparr>)\<rparr>"

text \<open>A root folder that holds nothing but one tabular file.\<close>

definition root_file_fs :: "string file_system" where
  "root_file_fs =
     \<lparr>walk = [([], [''fare table.csv''])],
      read_csv = (\<lambda>path. Inr \<lparr>df_columns = [''id'', ''fare''],
                                df_records = [[(''id'', ''1''), (''fare'', ''7.5'')]]\<rparr>)\<rparr>"

section \<open>Properties\<close>

subsection \<open>Results\<close>

lemma bind_raises [simp]: "bind_result (raises e) f = raises e"
  by (simp add: bind_result_def raises_def)

lemma bind_returns [simp]: "bind_result (returns x) f = f x"
  by (simp add: bind_result_def returns_def)

lemma bind_returns_D:
  "bind_result m f = returns y \<Longrightarrow> \<exists>x. m = returns x \<and> f x = returns y"
  by (auto simp: bind_result_def returns_def split: option.splits sum.splits)

subsection \<open>The polling loop\<close>

lemma wait_loop_reaches:
  "get_query_execution c qid (n + k) \<in> set terminal_states \<Longrightarrow>
   (\<And>j. j < k \<Longrightarrow> get_query_execution c qid (n + j) \<notin> set terminal_states) \<Longrightarrow>
   wait_loop c qid n t = Some (get_query_execution c qid (n + k), Suc (n + k), t + k)"
proof (induction k arbitrary: n t)
  case 0
  then show ?case by (subst wait_loop.simps) simp
next
  case (Suc k)
  have nt: "get_query_execution c qid n \<notin> set terminal_states"
    using Suc.prems(2) [of 0] by simp
  have step: "wait_loop c qid n t = wait_loop c qid (Suc n) (t + 1)"
    using nt by (subst wait_loop.simps) simp
  have "wait_loop c qid (Suc n) (t + 1) =
        Some (get_query_execution c qid (Suc n + k), Suc (Suc n + k), t + 1 + k)"
  proof (rule Suc.IH)
    show "get_query_execution c qid (Suc n + k) \<in> set terminal_states"
      using Suc.prems(1) by simp
  next
    fix j assume "j < k"
    then show "get_query_execution c qid (Suc n + j) \<notin> set terminal_states"
      using Suc.prems(2) [of "Suc j"] by simp
  qed
  with step show ?case by simp
qed


lemma wait_loop_Some_terminal:
  assumes "wait_loop c qid n t = Some r"
  shows "\<exists>k. get_query_execution c qid (n + k) \<in> set terminal_states"
  using assms
proof (induct c qid n t r rule: wait_loop.raw_induct [rotated 1, consumes 1])
  case (1 wl c qid n t r)
  show ?case
  proof (cases "get_query_execution c qid n \<in> set terminal_states")
    case True
    then have "get_query_execution c qid (n + 0) \<in> set terminal_states" by simp
    then show ?thesis by blast
  next
    case False
    with 1(2) have "wl c qid (Suc n) (Suc t) = Some r" by (simp add: Let_def)
    from 1(1) [OF this] obtain k
      where "get_query_execution c qid (Suc n + k) \<in> set terminal_states" by blast
    then have "get_query_execution c qid (n + Suc k) \<in> set terminal_states" by simp
    then show ?thesis by blast
  qed
qed

lemma wait_loop_value:
  assumes "get_query_execution c qid k \<in> set terminal_states"
  shows "wait_loop c qid 0 0 =
         Some (get_query_execution c qid (first_terminal c qid),
               Suc (first_terminal c qid), first_terminal c qid)"
proof -
  let ?m = "first_terminal c qid"
  have a: "get_query_execution c qid (0 + ?m) \<in> set terminal_states"
    unfolding first_terminal_def using assms by (metis LeastI add_0)
  have b: "\<And>j. j < ?m \<Longrightarrow> get_query_execution c qid (0 + j) \<notin> set terminal_states"
    unfolding first_terminal_def using not_less_Least by fastforce
  show ?thesis using wait_loop_reaches [OF a b] by simp
qed

lemma wait_loop_None:
  "(\<forall>k. get_query_execution c qid k \<notin> set terminal_states) \<Longrightarrow> wait_loop c qid 0 0 = None"
  using wait_loop_Some_terminal [of c qid 0 0] by (cases "wait_loop c qid 0 0") auto

lemma wait_terminates_iff:
  "wait_for_query_execution c qid \<noteq> None \<longleftrightarrow>
   (\<exists>k. get_query_execution c qid k \<in> set terminal_states)"
proof
  assume "wait_for_query_execution c qid \<noteq> None"
  then have "wait_loop c qid 0 0 \<noteq> None"
    by (auto simp: wait_for_query_execution_def split: option.splits)
  then obtain r where "wait_loop c qid 0 0 = Some r" by blast
  from wait_loop_Some_terminal [OF this]
  show "\<exists>k. get_query_execution c qid k \<in> set terminal_states" by simp
next
  assume "\<exists>k. get_query_execution c qid k \<in> set terminal_states"
  then obtain k where "get_query_execution c qid k \<in> set terminal_states" ..
  from wait_loop_value [OF this] show "wait_for_query_execution c qid \<noteq> None"
    by (simp add: wait_for_query_execution_def returns_def raises_def)
qed

lemma wait_at_first_terminal:
  assumes "first_terminal_at c qid k"
  shows "wait_loop c qid 0 0 = Some (get_query_execution c qid k, Suc k, k)"
proof -
  have a: "get_query_execution c qid (0 + k) \<in> set terminal_states"
    using assms by (simp add: first_terminal_at_def)
  have b: "\<And>j. j < k \<Longrightarrow> get_query_execution c qid (0 + j) \<notin> set terminal_states"
    using assms by (simp add: first_terminal_at_def)
  show ?thesis using wait_loop_reaches [OF a b] by simp
qed

lemma wait_loop_Some_first_terminal:
  assumes "wait_loop c qid 0 0 = Some (st, calls, slept)"
  shows "\<exists>k. first_terminal_at c qid k \<and> st = get_query_execution c qid k \<and>
             calls = Suc k \<and> slept = k"
proof -
  from wait_loop_Some_terminal [OF assms]
  obtain k0 where k0: "get_query_execution c qid k0 \<in> set terminal_states" by auto
  let ?m = "first_terminal c qid"
  have a: "get_query_execution c qid ?m \<in> set terminal_states"
    unfolding first_terminal_def using k0 by (rule LeastI)
  have b: "\<And>j. j < ?m \<Longrightarrow> get_query_execution c qid j \<notin> set terminal_states"
    unfolding first_terminal_def by (rule not_less_Least)
  have ft: "first_terminal_at c qid ?m"
    using a b by (simp add: first_terminal_at_def)
  from wait_at_first_terminal [OF ft] assms
  have "st = get_query_execution c qid ?m \<and> calls = Suc ?m \<and> slept = ?m" by simp
  with ft show ?thesis by blast
qed

lemma wait_failed:
  assumes "first_terminal_at c qid k" and "get_query_execution c qid k \<noteq> ''SUCCEEDED''"
  shows "wait_for_query_execution c qid =
         raises (Exception (''Query failed with state '' @ get_query_execution c qid k))"
  using wait_at_first_terminal [OF assms(1)] assms(2)
  by (simp add: wait_for_query_execution_def)

lemma wait_succeeded:
  assumes "first_terminal_at c qid k" and "get_query_execution c qid k = ''SUCCEEDED''"
  shows "wait_for_query_execution c qid = returns ()"
  using wait_at_first_terminal [OF assms(1)] assms(2)
  by (simp add: wait_for_query_execution_def)

lemma wait_returns_D:
  assumes "wait_for_query_execution c qid = returns u"
  shows "\<exists>k. first_terminal_at c qid k \<and> get_query_execution c qid k = ''SUCCEEDED''"
proof -
  from assms obtain st calls slept where w: "wait_loop c qid 0 0 = Some (st, calls, slept)"
    by (auto simp: wait_for_query_execution_def returns_def split: option.splits)
  with assms have "st = ''SUCCEEDED''"
    by (auto simp: wait_for_query_execution_def returns_def raises_def split: if_splits)
  with wait_loop_Some_first_terminal [OF w] show ?thesis by auto
qed

lemma get_all_tables_eq:
  "get_all_tables c db bucket =
     bind_result (wait_for_query_execution c (tables_query_id c db bucket))
       (\<lambda>_. Some (first_cells
          (slice_from_1 (get_query_results c (tables_query_id c db bucket)))))"
  by (simp add: get_all_tables_def tables_query_id_def Let_def)

lemma get_table_schema_eq:
  "get_table_schema c db table env =
     bind_result (wait_for_query_execution c (schema_query_id c db table env))
       (\<lambda>_. Some (first_cells
          (slice_from_1 (get_query_results c (schema_query_id c db table env)))))"
  by (simp add: get_table_schema_def schema_query_id_def Let_def)

lemma first_cells_values:
  "list_all has_first_value rs \<Longrightarrow> first_cells rs = Inr (map (\<lambda>r. the (hd r)) rs)"
proof (induction rs)
  case Nil
  then show ?case by simp
next
  case (Cons r rs)
  then obtain v cells where "r = Some v # cells"
    by (auto simp: has_first_value_def split: list.splits option.splits)
  with Cons show ?case by simp
qed

lemma example_tables_id [simp]:
  "tables_query_id example_client db bucket = ''SHOW TABLES IN '' @ db"
  by (simp add: tables_query_id_def example_client_def)

lemma example_schema_id [simp]:
  "schema_query_id example_client db table env = ''DESCRIBE '' @ db @ ''.'' @ table"
  by (simp add: schema_query_id_def example_client_def)

lemma example_first_terminal [simp]: "first_terminal_at example_client qid 2"
  by (simp add: first_terminal_at_def example_client_def terminal_states_def)

lemma example_state_2:
  "get_query_execution example_client qid 2 =
     (if qid = ''DESCRIBE db.broken'' then ''FAILED''
      else if qid = ''SHOW TABLES IN gone'' then ''CANCELLED'' else ''SUCCEEDED'')"
  by (simp add: example_client_def)

lemma example_results:
  "get_query_results example_client qid =
     (if qid = ''SHOW TABLES IN db'' then [[Some ''tab_name''], [Some ''trips'']]
      else if qid = ''SHOW TABLES IN empty'' then []
      else if qid = ''DESCRIBE db.bare'' then [[Some ''col_name'']]
      else [[Some ''col_name''], [Some ''id''], [Some ''fare'']])"
  by (simp add: example_client_def)

lemma example_tables: "get_all_tables example_client ''db'' bucket = returns [''trips'']"
proof -
  have "wait_for_query_execution example_client ''SHOW TABLES IN db'' = returns ()"
    by (rule wait_succeeded [where k = 2]) (simp_all add: example_state_2)
  then show ?thesis
    by (simp add: get_all_tables_eq example_results slice_from_1_def returns_def bind_result_def)
qed

lemma example_schema:
  "get_table_schema example_client ''db'' ''trips'' env = returns [''id'', ''fare'']"
proof -
  have "wait_for_query_execution example_client ''DESCRIBE db.trips'' = returns ()"
    by (rule wait_succeeded [where k = 2]) (simp_all add: example_state_2)
  then show ?thesis
    by (simp add: get_table_schema_eq example_results slice_from_1_def returns_def bind_result_def)
qed

text \<open>
  Claim C5. When the first terminal state that the polling of a query observes is \<open>FAILED\<close>
  or \<open>CANCELLED\<close>, \<open>get_all_tables\<close> and \<open>get_table_schema\<close> raise the exception whose
  message carries that state, so they return no result; and whenever one of them returns a
  result, the first terminal state observed was \<open>SUCCEEDED\<close>.
\<close>

theorem failed_query_raises:
  "(first_terminal_at c (tables_query_id c db bucket) k \<and>
      get_query_execution c (tables_query_id c db bucket) k \<in> {''FAILED'', ''CANCELLED''}
    \<longrightarrow> get_all_tables c db bucket =
        raises (Exception (''Query failed with state '' @
                  get_query_execution c (tables_query_id c db bucket) k)))
   \<and> (first_terminal_at c (schema_query_id c db' table env) k' \<and>
      get_query_execution c (schema_query_id c db' table env) k' \<in> {''FAILED'', ''CANCELLED''}
    \<longrightarrow> get_table_schema c db' table env =
        raises (Exception (''Query failed with state '' @
                  get_query_execution c (schema_query_id c db' table env) k')))
   \<and> (get_all_tables c db bucket = returns ts
    \<longrightarrow> (\<exists>n. first_terminal_at c (tables_query_id c db bucket) n \<and>
             get_query_execution c (tables_query_id c db bucket) n = ''SUCCEEDED''))
   \<and> (get_table_schema c db' table env = returns cols
    \<longrightarrow> (\<exists>n. first_terminal_at c (schema_query_id c db' table env) n \<and>
             get_query_execution c (schema_query_id c db' table env) n = ''SUCCEEDED''))"
proof (intro conjI impI)
  assume h: "first_terminal_at c (tables_query_id c db bucket) k \<and>
      get_query_execution c (tables_query_id c db bucket) k \<in> {''FAILED'', ''CANCELLED''}"
  then have ne: "get_query_execution c (tables_query_id c db bucket) k \<noteq> ''SUCCEEDED''"
    and ft: "first_terminal_at c (tables_query_id c db bucket) k" by auto
  from wait_failed [OF ft ne] show "get_all_tables c db bucket =
        raises (Exception (''Query failed with state '' @
                  get_query_execution c (tables_query_id c db bucket) k))"
    by (simp add: get_all_tables_eq)
next
  assume h: "first_terminal_at c (schema_query_id c db' table env) k' \<and>
      get_query_execution c (schema_query_id c db' table env) k' \<in> {''FAILED'', ''CANCELLED''}"
  then have ne: "get_query_execution c (schema_query_id c db' table env) k' \<noteq> ''SUCCEEDED''"
    and ft: "first_terminal_at c (schema_query_id c db' table env) k'" by auto
  from wait_failed [OF ft ne] show "get_table_schema c db' table env =
        raises (Exception (''Query failed with state '' @
                  get_query_execution c (schema_query_id c db' table env) k'))"
    by (simp add: get_table_schema_eq)
next
  assume "get_all_tables c db bucket = returns ts"
  then obtain u where "wait_for_query_execution c (tables_query_id c db bucket) = returns u"
    unfolding get_all_tables_eq by (blast dest: bind_returns_D)
  then show "\<exists>n. first_terminal_at c (tables_query_id c db bucket) n \<and>
             get_query_execution c (tables_query_id c db bucket) n = ''SUCCEEDED''"
    by (rule wait_returns_D)
next
  assume "get_table_schema c db' table env = returns cols"
  then obtain u where "wait_for_query_execution c (schema_query_id c db' table env) = returns u"
    unfolding get_table_schema_eq by (blast dest: bind_returns_D)
  then show "\<exists>n. first_terminal_at c (schema_query_id c db' table env) n \<and>
             get_query_execution c (schema_query_id c db' table env) n = ''SUCCEEDED''"
    by (rule wait_returns_D)
qed

theorem failed_query_raises_witness:
  "get_all_tables example_client ''gone'' ''bkt'' =
     raises (Exception ''Query failed with state CANCELLED'')
   \<and> get_table_schema example_client ''db'' ''broken'' ''poc'' =
     raises (Exception ''Query failed with state FAILED'')
   \<and> get_all_tables example_client ''db'' ''bkt'' = returns [''trips'']
   \<and> get_table_schema example_client ''db'' ''trips'' ''poc'' = returns [''id'', ''fare'']
   \<and> get_query_execution example_client ''SHOW TABLES IN db'' 2 = ''SUCCEEDED''
   \<and> get_query_execution example_client ''DESCRIBE db.trips'' 2 = ''SUCCEEDED''"
  using failed_query_raises [of example_client "''gone''" "''bkt''" 2 "''db''" "''broken''"
      "''poc''" 2 "[]" "[]"]
    failed_query_raises [of example_client "''db''" "''bkt''" 2 "''db''" "''trips''"
      "''poc''" 2 "[''trips'']" "[''id'', ''fare'']"]
    example_tables example_schema
  by (simp add: example_state_2)


text \<open>
  Claim C8. \<open>_wait_for_query_execution\<close> ends, by returning or by raising, exactly when some
  status call answers one of \<open>SUCCEEDED\<close>, \<open>FAILED\<close>, \<open>CANCELLED\<close>; there is no bound on the
  number of calls: when the \<open>k\<close>-th call is the first to answer a terminal state, the loop
  has made \<open>k + 1\<close> calls and slept \<open>k\<close> times one unit, whatever \<open>k\<close> is, and a job that
  never reaches a terminal state is polled forever.
\<close>

theorem wait_terminates_iff_terminal:
  "(wait_for_query_execution c qid \<noteq> None \<longleftrightarrow>
      (\<exists>n. get_query_execution c qid n \<in> set terminal_states))
   \<and> (first_terminal_at c qid k \<longrightarrow>
      wait_loop c qid 0 0 = Some (get_query_execution c qid k, Suc k, k))"
  using wait_terminates_iff [of c qid] wait_at_first_terminal [of c qid k] by blast

theorem wait_terminates_iff_terminal_witness:
  "wait_loop example_client ''q'' 0 0 = Some (''SUCCEEDED'', 3, 2)
   \<and> wait_for_query_execution example_client ''q'' \<noteq> None
   \<and> wait_for_query_execution stuck_client ''q'' = None"
proof -
  have a: "\<exists>n. get_query_execution example_client ''q'' n \<in> set terminal_states"
    by (rule exI [of _ 2]) (simp add: example_state_2 terminal_states_def)
  have b: "\<not> (\<exists>n. get_query_execution stuck_client ''q'' n \<in> set terminal_states)"
    by (simp add: stuck_client_def terminal_states_def)
  have "wait_loop example_client ''q'' 0 0 = Some (''SUCCEEDED'', 3, 2)"
    using wait_terminates_iff_terminal [of example_client "''q''" 2]
    by (simp add: example_state_2 numeral_3_eq_3)
  moreover have "wait_for_query_execution example_client ''q'' \<noteq> None"
    using wait_terminates_iff_terminal [of example_client "''q''" 2] a by blast
  moreover have "wait_for_query_execution stuck_client ''q'' = None"
    using wait_terminates_iff_terminal [of stuck_client "''q''" 0] b by blast
  ultimately show ?thesis by blast
qed

text \<open>
  Claim C10. Each on its own, once its query has succeeded, \<open>get_all_tables\<close> and
  \<open>get_table_schema\<close> return the first cell value of every row after the first one, in the
  order of the rows, provided each of these rows has a first cell with a value; with only the
  header row, or no row at all, they return the empty list.
\<close>

theorem reader_returns_first_cells:
  "(first_terminal_at c (tables_query_id c db bucket) k \<and>
    get_query_execution c (tables_query_id c db bucket) k = ''SUCCEEDED''
    \<longrightarrow> (list_all has_first_value (drop 1 (get_query_results c (tables_query_id c db bucket)))
          \<longrightarrow> get_all_tables c db bucket =
              returns (map (\<lambda>r. the (hd r))
                        (drop 1 (get_query_results c (tables_query_id c db bucket)))))
        \<and> (length (get_query_results c (tables_query_id c db bucket)) \<le> 1
          \<longrightarrow> get_all_tables c db bucket = returns []))
   \<and> (first_terminal_at c (schema_query_id c db' table env) k' \<and>
      get_query_execution c (schema_query_id c db' table env) k' = ''SUCCEEDED''
    \<longrightarrow> (list_all has_first_value
            (drop 1 (get_query_results c (schema_query_id c db' table env)))
          \<longrightarrow> get_table_schema c db' table env =
              returns (map (\<lambda>r. the (hd r))
                        (drop 1 (get_query_results c (schema_query_id c db' table env)))))
        \<and> (length (get_query_results c (schema_query_id c db' table env)) \<le> 1
          \<longrightarrow> get_table_schema c db' table env = returns []))"
proof (rule conjI)
  show "first_terminal_at c (tables_query_id c db bucket) k \<and>
    get_query_execution c (tables_query_id c db bucket) k = ''SUCCEEDED''
    \<longrightarrow> (list_all has_first_value (drop 1 (get_query_results c (tables_query_id c db bucket)))
          \<longrightarrow> get_all_tables c db bucket =
              returns (map (\<lambda>r. the (hd r))
                        (drop 1 (get_query_results c (tables_query_id c db bucket)))))
        \<and> (length (get_query_results c (tables_query_id c db bucket)) \<le> 1
          \<longrightarrow> get_all_tables c db bucket = returns [])"
  proof
    assume h: "first_terminal_at c (tables_query_id c db bucket) k \<and>
      get_query_execution c (tables_query_id c db bucket) k = ''SUCCEEDED''"
    have t: "get_all_tables c db bucket =
             Some (first_cells (drop 1 (get_query_results c (tables_query_id c db bucket))))"
      using wait_succeeded [OF conjunct1 [OF h] conjunct2 [OF h]]
      by (simp add: get_all_tables_eq slice_from_1_def)
    show "(list_all has_first_value (drop 1 (get_query_results c (tables_query_id c db bucket)))
          \<longrightarrow> get_all_tables c db bucket =
              returns (map (\<lambda>r. the (hd r))
                        (drop 1 (get_query_results c (tables_query_id c db bucket)))))
        \<and> (length (get_query_results c (tables_query_id c db bucket)) \<le> 1
          \<longrightarrow> get_all_tables c db bucket = returns [])"
      unfolding t by (simp add: first_cells_values returns_def)
  qed
next
  show "first_terminal_at c (schema_query_id c db' table env) k' \<and>
      get_query_execution c (schema_query_id c db' table env) k' = ''SUCCEEDED''
    \<longrightarrow> (list_all has_first_value
            (drop 1 (get_query_results c (schema_query_id c db' table env)))
          \<longrightarrow> get_table_schema c db' table env =
              returns (map (\<lambda>r. the (hd r))
                        (drop 1 (get_query_results c (schema_query_id c db' table env)))))
        \<and> (length (get_query_results c (schema_query_id c db' table env)) \<le> 1
          \<longrightarrow> get_table_schema c db' table env = returns [])"
  proof
    assume h: "first_terminal_at c (schema_query_id c db' table env) k' \<and>
      get_query_execution c (schema_query_id c db' table env) k' = ''SUCCEEDED''"
    have s: "get_table_schema c db' table env =
             Some (first_cells (drop 1 (get_query_results c (schema_query_id c db' table env))))"
      using wait_succeeded [OF conjunct1 [OF h] conjunct2 [OF h]]
      by (simp add: get_table_schema_eq slice_from_1_def)
    show "(list_all has_first_value
            (drop 1 (get_query_results c (schema_query_id c db' table env)))
          \<longrightarrow> get_table_schema c db' table env =
              returns (map (\<lambda>r. the (hd r))
                        (drop 1 (get_query_results c (schema_query_id c db' table env)))))
        \<and> (length (get_query_results c (schema_query_id c db' table env)) \<le> 1
          \<longrightarrow> get_table_schema c db' table env = returns [])"
      unfolding s by (simp add: first_cells_values returns_def)
  qed
qed

theorem reader_returns_first_cells_witness:
  "get_all_tables example_client ''db'' ''bkt'' = returns [''trips'']
   \<and> get_all_tables example_client ''empty'' ''bkt'' = returns []
   \<and> get_table_schema example_client ''db'' ''trips'' ''poc'' = returns [''id'', ''fare'']
   \<and> get_table_schema example_client ''db'' ''bare'' ''poc'' = returns []
   \<and> get_all_tables tables_only_client ''db'' ''bkt'' = returns []"
proof -
  have a: "get_all_tables example_client ''db'' ''bkt'' = returns [''trips'']"
    using reader_returns_first_cells [where c = example_client and db = "''db''"
        and bucket = "''bkt''" and k = 2, THEN conjunct1]
    by (simp add: example_state_2 example_results has_first_value_def)
  have b: "get_all_tables example_client ''empty'' ''bkt'' = returns []"
    using reader_returns_first_cells [where c = example_client and db = "''empty''"
        and bucket = "''bkt''" and k = 2, THEN conjunct1]
    by (simp add: example_state_2 example_results)
  have c: "get_table_schema example_client ''db'' ''trips'' ''poc'' = returns [''id'', ''fare'']"
    using reader_returns_first_cells [where c = example_client and db' = "''db''"
        and table = "''trips''" and env = "''poc''" and k' = 2, THEN conjunct2]
    by (simp add: example_state_2 example_results has_first_value_def)
  have d: "get_table_schema example_client ''db'' ''bare'' ''poc'' = returns []"
    using reader_returns_first_cells [where c = example_client and db' = "''db''"
        and table = "''bare''" and env = "''poc''" and k' = 2, THEN conjunct2]
    by (simp add: example_state_2 example_results)
  have e: "get_all_tables tables_only_client ''db'' ''bkt'' = returns []"
    using reader_returns_first_cells [where c = tables_only_client and db = "''db''"
        and bucket = "''bkt''" and k = 0, THEN conjunct1]
    by (simp add: tables_only_client_def tables_query_id_def first_terminal_at_def
        terminal_states_def)
  show ?thesis using a b c d e by blast
qed

subsection \<open>The instruction composer\<close>

lemma join_snoc: "xs \<noteq> [] \<Longrightarrow> join sep (xs @ [y]) = join sep xs @ sep @ y"
  by (induction sep xs rule: join.induct) auto

lemma instruction_parts_nonempty [simp]: "instruction_parts db \<noteq> []"
  by (simp add: instruction_parts_def)

lemma append_context_lines_eq:
  "append_context_lines items parts =
     parts @ map (\<lambda>(folder, context). example_line folder (columns context)) items"
  by (induction items arbitrary: parts) auto

lemma append_table_lines_eq:
  "(\<And>t. t \<in> set tables \<Longrightarrow> get_table_schema c db t env = returns (cols t)) \<Longrightarrow>
   append_table_lines c db env tables parts =
     returns (parts @ map (\<lambda>t. example_line t (cols t)) tables)"
  by (induction tables arbitrary: parts) auto

lemma generate_instruction_supplied:
  "items \<noteq> [] \<Longrightarrow>
   generate_instruction c db (Some items) env =
     returns (join '' '' (instruction_parts db @
        map (\<lambda>(folder, context). example_line folder (columns context)) items))"
  by (simp add: generate_instruction_def truthy_def append_context_lines_eq)

lemma generate_instruction_falsy:
  "generate_instruction c db (Some []) env = generate_instruction c db None env"
  by (simp add: generate_instruction_def truthy_def)

lemma generate_instruction_discover:
  assumes "get_all_tables c db (athena_output_of env) = returns tables"
    and "\<And>t. t \<in> set tables \<Longrightarrow> get_table_schema c db t env = returns (cols t)"
  shows "generate_instruction c db (Some []) env =
     returns (join '' '' (instruction_parts db @ map (\<lambda>t. example_line t (cols t)) tables))"
  using assms(1) append_table_lines_eq [of tables c db env cols, OF assms(2)]
  by (simp add: generate_instruction_def truthy_def)

lemma example_line_trips:
  \<open>example_line ''trips'' [''id'', ''fare''] =
     ''- Table `trips` example query: SELECT "id", "fare" FROM "trips" LIMIT 5;''\<close>
  by (simp add: example_line_def quoted_columns_def)

lemma example_no_tables: "get_all_tables example_client ''empty'' bucket = returns []"
proof -
  have "wait_for_query_execution example_client ''SHOW TABLES IN empty'' = returns ()"
    by (rule wait_succeeded [where k = 2]) (simp_all add: example_state_2)
  then show ?thesis
    by (simp add: get_all_tables_eq example_results slice_from_1_def returns_def bind_result_def)
qed

text \<open>
  Claim C6. For the supplied context \<open>{"trips": {"columns": ["id", "fare"], "sample_data": ...}}\<close>,
  whatever the database name, the environment, the sample record and the Athena service,
  \<open>generate_instruction\<close> returns the preamble followed by the line of the table
  \<open>trips\<close>, so its result contains the substring
  \<open>Table `trips` example query: SELECT "id", "fare" FROM "trips" LIMIT 5;\<close>.
\<close>

theorem trips_example_line:
  \<open>generate_instruction c db
      (Some [(''trips'', \<lparr>columns = [''id'', ''fare''], sample_data = s\<rparr>)]) env =
     returns (join '' '' (instruction_parts db) @
       '' - Table `trips` example query: SELECT "id", "fare" FROM "trips" LIMIT 5;'')
   \<and> sublist ''Table `trips` example query: SELECT "id", "fare" FROM "trips" LIMIT 5;''
       (join '' '' (instruction_parts db) @
        '' - Table `trips` example query: SELECT "id", "fare" FROM "trips" LIMIT 5;'')\<close>
proof
  show \<open>generate_instruction c db
      (Some [(''trips'', \<lparr>columns = [''id'', ''fare''], sample_data = s\<rparr>)]) env =
     returns (join '' '' (instruction_parts db) @
       '' - Table `trips` example query: SELECT "id", "fare" FROM "trips" LIMIT 5;'')\<close>
    by (simp add: generate_instruction_supplied join_snoc example_line_trips)
next
  have \<open>join '' '' (instruction_parts db) @
        '' - Table `trips` example query: SELECT "id", "fare" FROM "trips" LIMIT 5;'' =
        (join '' '' (instruction_parts db) @ '' - '') @
        ''Table `trips` example query: SELECT "id", "fare" FROM "trips" LIMIT 5;'' @ []\<close>
    by simp
  then show \<open>sublist ''Table `trips` example query: SELECT "id", "fare" FROM "trips" LIMIT 5;''
       (join '' '' (instruction_parts db) @
        '' - Table `trips` example query: SELECT "id", "fare" FROM "trips" LIMIT 5;'')\<close>
    unfolding sublist_def by blast
qed

text \<open>
  Claim C1, as stated, fails: the empty dict is false for \<open>if data_context:\<close>, so the
  tables are discovered through Athena, and with a catalog that lists the table \<open>trips\<close>
  the result is not the preamble alone.
\<close>

theorem empty_context_counterexample:
  "generate_instruction example_client ''db'' (Some ([] :: json folder_context dict)) ''poc''
     \<noteq> returns (join '' '' (instruction_parts ''db''))"
proof -
  have "generate_instruction example_client ''db'' (Some ([] :: json folder_context dict)) ''poc'' =
        returns (join '' '' (instruction_parts ''db'' @
          map (\<lambda>t. example_line t [''id'', ''fare'']) [''trips'']))"
    by (rule generate_instruction_discover) (simp_all add: example_tables example_schema)
  then show ?thesis
    by (simp add: join_snoc returns_def)
qed

text \<open>
  Claim C1, amended. For the empty context mapping \<open>generate_instruction\<close> does what it
  does when no mapping is supplied: it lists the tables of the catalog database through
  Athena and, when the listing and every \<open>DESCRIBE\<close> return, returns the preamble parts
  followed by one example-query line per listed table, all joined by single spaces. The result
  is the joined preamble alone when the listing returns no table.
\<close>

theorem empty_context_discovers:
  "generate_instruction c db (Some []) env = generate_instruction c db None env
   \<and> (get_all_tables c db (athena_output_of env) = returns tables \<and>
      (\<forall>t \<in> set tables. get_table_schema c db t env = returns (cols t))
      \<longrightarrow> generate_instruction c db (Some []) env =
          returns (join '' '' (instruction_parts db @
                     map (\<lambda>t. example_line t (cols t)) tables)))
   \<and> (get_all_tables c db (athena_output_of env) = returns []
      \<longrightarrow> generate_instruction c db (Some []) env =
          returns (join '' '' (instruction_parts db)))"
proof (intro conjI impI)
  show "generate_instruction c db (Some []) env = generate_instruction c db None env"
    by (rule generate_instruction_falsy)
next
  assume "get_all_tables c db (athena_output_of env) = returns tables \<and>
      (\<forall>t \<in> set tables. get_table_schema c db t env = returns (cols t))"
  then show "generate_instruction c db (Some []) env =
          returns (join '' '' (instruction_parts db @
                     map (\<lambda>t. example_line t (cols t)) tables))"
    by (intro generate_instruction_discover) auto
next
  assume "get_all_tables c db (athena_output_of env) = returns []"
  then show "generate_instruction c db (Some []) env =
          returns (join '' '' (instruction_parts db))"
    using generate_instruction_discover [of c db env "[]" "\<lambda>t. []"] by simp
qed

theorem empty_context_discovers_witness:
  \<open>generate_instruction example_client ''empty'' (Some ([] :: json folder_context dict)) ''poc'' =
     returns (join '' '' (instruction_parts ''empty''))
   \<and> generate_instruction example_client ''db'' (Some ([] :: json folder_context dict)) ''poc'' =
     returns (join '' '' (instruction_parts ''db'') @
       '' - Table `trips` example query: SELECT "id", "fare" FROM "trips" LIMIT 5;'')\<close>
proof -
  have a: "generate_instruction example_client ''empty''
             (Some ([] :: json folder_context dict)) ''poc'' =
           returns (join '' '' (instruction_parts ''empty''))"
    using empty_context_discovers [of example_client "''empty''" "''poc''" "[]" "\<lambda>t. []",
        THEN conjunct2, THEN conjunct2]
    by (simp add: example_no_tables)
  have b: "generate_instruction example_client ''db''
             (Some ([] :: json folder_context dict)) ''poc'' =
           returns (join '' '' (instruction_parts ''db'' @
             map (\<lambda>t. example_line t [''id'', ''fare'']) [''trips'']))"
    using empty_context_discovers [of example_client "''db''" "''poc''" "[''trips'']"
        "\<lambda>t. [''id'', ''fare'']", THEN conjunct2, THEN conjunct1]
    by (simp add: example_tables example_schema)
  show ?thesis
    using a b by (simp add: join_snoc example_line_trips)
qed

subsection \<open>The object-store sampler\<close>

lemma absorb_append: "absorb fc (ds @ es) = absorb (absorb fc ds) es"
  by (induction ds arbitrary: fc) auto

lemma process_lines_absorb: "process_lines fc ls = absorb fc (decoded_lines ls)"
proof (induction fc ls rule: process_lines.induct)
  case (2 fc v ls)
  then show ?case by (cases v) (auto simp: process_value_def)
qed auto

lemma process_object_absorb:
  "process_object c b fc key = absorb fc (decoded_object c b key)"
  by (simp add: process_object_def decoded_object_def process_lines_absorb
      split: s3_body.splits)

lemma process_objects_absorb:
  "process_objects c b fc ks = absorb fc (concat (map (decoded_object c b) ks))"
  by (induction ks arbitrary: fc) (auto simp: process_object_absorb absorb_append)

lemma process_pages_absorb:
  "process_pages c b fc pages =
     absorb fc (concat (map (decoded_object c b) (concat (map contents pages))))"
  by (induction pages arbitrary: fc) (auto simp: process_objects_absorb absorb_append)

lemma columns_set_absorb:
  "columns_set (absorb fc ds) = columns_set fc \<union> (\<Union>d \<in> set ds. keys d)"
  by (induction ds arbitrary: fc) (auto simp: process_value_def keys_def)

lemma sample_absorb:
  "sample (absorb fc ds) = (case sample fc of None \<Rightarrow> first_of ds | Some d \<Rightarrow> Some d)"
  by (induction ds arbitrary: fc) (auto simp: process_value_def first_of_def split: option.splits)

lemma finite_columns_set_absorb:
  "finite (columns_set fc) \<Longrightarrow> finite (columns_set (absorb fc ds))"
  by (simp add: columns_set_absorb keys_def)

lemma process_folder_columns:
  assumes "\<forall>S. finite S \<longrightarrow> set (list_of_set S) = S"
  shows "set (columns (process_folder list_of_set c b f)) =
         (\<Union>d \<in> set (decoded_records c b f). keys d)"
proof -
  let ?fc = "process_pages c b \<lparr>columns_set = {}, sample = None\<rparr> (paginate c b f)"
  have fin: "finite (columns_set ?fc)"
    by (simp add: process_pages_absorb finite_columns_set_absorb)
  have "set (columns (process_folder list_of_set c b f)) = columns_set ?fc"
    using assms fin by (simp add: process_folder_def Let_def)
  then show ?thesis
    by (simp add: process_pages_absorb columns_set_absorb decoded_records_def)
qed

lemma process_folder_sample:
  "sample_data (process_folder list_of_set c b f) = first_of (decoded_records c b f)"
  by (simp add: process_folder_def Let_def process_pages_absorb sample_absorb
      decoded_records_def)

lemma example_s3_records:
  "decoded_records example_s3 bucket folder =
     [[(''id'', JNumber ''1''), (''fare'', JNumber ''7.5'')],
      [(''id'', JNumber ''2''), (''tip'', JNull)],
      [(''zone'', JString ''north'')],
      [(''id'', JNumber ''3''), (''city'', JString ''x'')]]"
  by (simp add: decoded_records_def example_s3_def contents_def decoded_object_def endswith_def)

lemma sorted_list_lists: "\<forall>S :: string set. finite S \<longrightarrow> set (sorted_list_of_set S) = S"
  by simp

lemma reversed_s3_records:
  "decoded_records (reversed_listing example_s3) bucket folder =
     [[(''id'', JNumber ''3''), (''city'', JString ''x'')],
      [(''zone'', JString ''north'')],
      [(''id'', JNumber ''1''), (''fare'', JNumber ''7.5'')],
      [(''id'', JNumber ''2''), (''tip'', JNull)]]"
  by (simp add: decoded_records_def reversed_listing_def example_s3_def contents_def
      decoded_object_def endswith_def)

lemma decoded_lines_skip:
  "decoded_lines (ls1 @ JSONDecodeError # ls2) = decoded_lines (ls1 @ ls2)"
proof (induction ls1)
  case Nil
  then show ?case by simp
next
  case (Cons l ls1)
  then show ?case
  proof (cases l)
    case (Decoded v)
    with Cons show ?thesis by (cases v) simp_all
  qed simp_all
qed

text \<open>
  Claim C2. Whatever order \<open>list(...)\<close> gives to the set, the \<open>columns\<close> of the context
  returned by \<open>process_folder\<close> are, as a set, the union of the key sets of the mapping
  records decoded under the folder; so they contain the keys of each of these records, and two
  scans that decode the same records, in any order, give the same set of columns.
\<close>

theorem columns_union_of_keys:
  assumes "\<forall>S. finite S \<longrightarrow> set (list_of_set S) = S"
  shows "set (columns (process_folder list_of_set c b f)) =
           (\<Union>d \<in> set (decoded_records c b f). keys d)
         \<and> (\<forall>d \<in> set (decoded_records c b f).
              keys d \<subseteq> set (columns (process_folder list_of_set c b f)))
         \<and> (set (decoded_records c' b' f') = set (decoded_records c b f) \<longrightarrow>
              set (columns (process_folder list_of_set c' b' f')) =
              set (columns (process_folder list_of_set c b f)))"
  using process_folder_columns [OF assms, of c b f]
    process_folder_columns [OF assms, of c' b' f']
  by auto

theorem columns_union_of_keys_witness:
  "set (columns (process_folder sorted_list_of_set example_s3 ''bkt'' ''trips/data/'')) =
     {''id'', ''fare'', ''tip'', ''zone'', ''city''}
   \<and> set (columns (process_folder sorted_list_of_set (reversed_listing example_s3)
                     ''bkt'' ''trips/data/'')) =
     set (columns (process_folder sorted_list_of_set example_s3 ''bkt'' ''trips/data/''))"
proof -
  note inst = columns_union_of_keys [OF sorted_list_lists,
      of example_s3 "''bkt''" "''trips/data/''"
         "reversed_listing example_s3" "''bkt''" "''trips/data/''"]
  have same: "set (decoded_records (reversed_listing example_s3) ''bkt'' ''trips/data/'') =
              set (decoded_records example_s3 ''bkt'' ''trips/data/'')"
    by (simp add: example_s3_records reversed_s3_records insert_commute)
  have a: "set (columns (process_folder sorted_list_of_set example_s3 ''bkt'' ''trips/data/'')) =
     {''id'', ''fare'', ''tip'', ''zone'', ''city''}"
    using inst [THEN conjunct1] by (simp add: example_s3_records keys_def insert_commute)
  have b: "set (columns (process_folder sorted_list_of_set (reversed_listing example_s3)
                     ''bkt'' ''trips/data/'')) =
     set (columns (process_folder sorted_list_of_set example_s3 ''bkt'' ''trips/data/''))"
    using inst [THEN conjunct2, THEN conjunct2] same by blast
  show ?thesis using a b by blast
qed

text \<open>
  Claim C3. The \<open>sample_data\<close> returned by \<open>process_folder\<close> is the first mapping record
  decoded in the order of the scan (\<open>None\<close> when there is none); once it is set, neither
  one more decoded value nor the rest of the scan changes it. The result is a function of
  what the listing and the objects answer, so a fixed ordering gives the same sample.
\<close>

theorem sample_is_first_record:
  "sample_data (process_folder list_of_set c b f) = first_of (decoded_records c b f)
   \<and> (sample fc = Some d \<longrightarrow> sample (process_value fc v) = Some d)
   \<and> (sample fc = Some d \<longrightarrow> sample (process_pages c b fc pages) = Some d)"
proof (intro conjI impI)
  show "sample_data (process_folder list_of_set c b f) = first_of (decoded_records c b f)"
    by (rule process_folder_sample)
next
  assume "sample fc = Some d"
  then show "sample (process_value fc v) = Some d"
    by (cases v) (simp_all add: process_value_def)
next
  assume "sample fc = Some d"
  then show "sample (process_pages c b fc pages) = Some d"
    by (simp add: process_pages_absorb sample_absorb)
qed

theorem sample_is_first_record_witness:
  "sample_data (process_folder sorted_list_of_set example_s3 ''bkt'' ''trips/data/'') =
     Some [(''id'', JNumber ''1''), (''fare'', JNumber ''7.5'')]
   \<and> sample (process_value \<lparr>columns_set = {''id''}, sample = Some [(''id'', JNull)]\<rparr>
               (JObject [(''fare'', JNull)])) = Some [(''id'', JNull)]
   \<and> sample (process_pages example_s3 ''bkt''
               \<lparr>columns_set = {''id''}, sample = Some [(''id'', JNull)]\<rparr>
               (paginate example_s3 ''bkt'' ''trips/data/'')) = Some [(''id'', JNull)]"
  using sample_is_first_record [of sorted_list_of_set example_s3 "''bkt''" "''trips/data/''"
      "\<lparr>columns_set = {''id''}, sample = Some [(''id'', JNull)]\<rparr>" "[(''id'', JNull)]"
      "JObject [(''fare'', JNull)]" "paginate example_s3 ''bkt'' ''trips/data/''"]
  by (simp add: example_s3_records first_of_def)

lemma decoded_lines_cut:
  "decoded_lines (ls1 @ OtherException # ls2) = decoded_lines ls1"
proof (induction ls1)
  case Nil
  then show ?case by simp
next
  case (Cons l ls1)
  then show ?case
  proof (cases l)
    case (Decoded v)
    with Cons show ?thesis by (cases v) simp_all
  qed simp_all
qed

text \<open>
  Claim C4, as stated, fails for a line that cannot be decoded because its bytes are not
  UTF-8: \<open>line.decode('utf-8')\<close> raises \<open>UnicodeDecodeError\<close>, the handler of
  \<open>json.JSONDecodeError\<close> does not catch it and the handler around the object does, so the
  lines after it in the same object are not processed. With such a line before a line that
  holds the record \<open>{"id": 1}\<close>, the column \<open>id\<close> is missing and there is no sample.
\<close>

theorem undecodable_line_counterexample:
  "set (columns (process_folder sorted_list_of_set
      (one_object_s3 [OtherException, Decoded (JObject [(''id'', JNumber ''1'')])])
      ''bkt'' ''trips/data/'')) \<noteq> {''id''}
   \<and> sample_data (process_folder sorted_list_of_set
      (one_object_s3 [OtherException, Decoded (JObject [(''id'', JNumber ''1'')])])
      ''bkt'' ''trips/data/'') = None"
  by (simp add: process_folder_def one_object_s3_def contents_def process_object_def
      endswith_def)

text \<open>
  Claim C4, amended. A line on which \<open>json.loads\<close> raises \<open>JSONDecodeError\<close> changes
  nothing and the lines after it are processed. Any other exception while a line is read or
  decoded ends the work on that object: what the lines before it gave is kept and the lines
  after it are not processed. An object that cannot be fetched, or whose stream fails at the
  first read, changes nothing. In every case the scan goes on with the objects and pages that
  follow, and the returned context holds the union of the keys, and the first, of the
  mapping records decoded; three lines that decode to mapping records with one malformed
  line at any position give the union of the keys of the three records.
\<close>

theorem decode_failures_are_local:
  "process_lines fc (ls1 @ JSONDecodeError # ls2) = process_lines fc (ls1 @ ls2)
   \<and> process_lines fc (ls1 @ OtherException # ls2) = process_lines fc ls1
   \<and> (get_object c b k = GetObjectFails \<or> get_object c b k = GzipLines (OtherException # ls)
      \<longrightarrow> process_objects c b fc (ks1 @ k # ks2) = process_objects c b fc (ks1 @ ks2))
   \<and> process_objects c b fc (ks1 @ k # ks2) =
       process_objects c b (process_object c b (process_objects c b fc ks1) k) ks2
   \<and> process_pages c b fc (ps1 @ p # ps2) =
       process_pages c b (process_objects c b (process_pages c b fc ps1) (contents p)) ps2
   \<and> ((\<forall>S. finite S \<longrightarrow> set (list_of_set S) = S)
      \<longrightarrow> set (columns (process_folder list_of_set c b f)) =
            (\<Union>d \<in> set (decoded_records c b f). keys d)
          \<and> sample_data (process_folder list_of_set c b f) = first_of (decoded_records c b f))
   \<and> ((\<forall>S. finite S \<longrightarrow> set (list_of_set S) = S) \<and>
       paginate c b f = [Some [k]] \<and> endswith k ''.json.gz'' \<and>
       get_object c b k =
         GzipLines (take i (three_valid d1 d2 d3) @ JSONDecodeError # drop i (three_valid d1 d2 d3))
      \<longrightarrow> set (columns (process_folder list_of_set c b f)) = keys d1 \<union> keys d2 \<union> keys d3
          \<and> sample_data (process_folder list_of_set c b f) = Some d1)"
proof (intro conjI impI)
  show "process_lines fc (ls1 @ JSONDecodeError # ls2) = process_lines fc (ls1 @ ls2)"
    by (simp add: process_lines_absorb decoded_lines_skip)
next
  show "process_lines fc (ls1 @ OtherException # ls2) = process_lines fc ls1"
    by (simp add: process_lines_absorb decoded_lines_cut)
next
  assume "get_object c b k = GetObjectFails \<or> get_object c b k = GzipLines (OtherException # ls)"
  then have "decoded_object c b k = []"
    by (auto simp: decoded_object_def)
  then show "process_objects c b fc (ks1 @ k # ks2) = process_objects c b fc (ks1 @ ks2)"
    by (simp add: process_objects_absorb)
next
  show "process_objects c b fc (ks1 @ k # ks2) =
       process_objects c b (process_object c b (process_objects c b fc ks1) k) ks2"
    by (simp add: process_objects_absorb process_object_absorb absorb_append)
next
  show "process_pages c b fc (ps1 @ p # ps2) =
       process_pages c b (process_objects c b (process_pages c b fc ps1) (contents p)) ps2"
    by (simp add: process_pages_absorb process_objects_absorb absorb_append)
next
  assume enum: "\<forall>S. finite S \<longrightarrow> set (list_of_set S) = S"
  show "set (columns (process_folder list_of_set c b f)) =
            (\<Union>d \<in> set (decoded_records c b f). keys d)"
    by (rule process_folder_columns [OF enum])
  show "sample_data (process_folder list_of_set c b f) = first_of (decoded_records c b f)"
    by (rule process_folder_sample)
next
  assume h: "(\<forall>S. finite S \<longrightarrow> set (list_of_set S) = S) \<and>
       paginate c b f = [Some [k]] \<and> endswith k ''.json.gz'' \<and>
       get_object c b k =
         GzipLines (take i (three_valid d1 d2 d3) @ JSONDecodeError # drop i (three_valid d1 d2 d3))"
  then have enum: "\<forall>S. finite S \<longrightarrow> set (list_of_set S) = S" by blast
  have "decoded_records c b f =
        decoded_lines (take i (three_valid d1 d2 d3) @ drop i (three_valid d1 d2 d3))"
    using h by (simp add: decoded_records_def contents_def decoded_object_def decoded_lines_skip)
  then have recs: "decoded_records c b f = [d1, d2, d3]"
    by (simp add: three_valid_def)
  show "set (columns (process_folder list_of_set c b f)) = keys d1 \<union> keys d2 \<union> keys d3"
    using process_folder_columns [OF enum, of c b f] by (auto simp: recs)
  show "sample_data (process_folder list_of_set c b f) = Some d1"
    using process_folder_sample [of list_of_set c b f] by (simp add: recs first_of_def)
qed


theorem decode_failures_are_local_witness:
  "process_objects example_s3 ''bkt'' \<lparr>columns_set = {}, sample = None\<rparr>
     [''trips/data/a.json.gz'', ''trips/data/b.json.gz'', ''trips/data/d.json.gz''] =
   process_objects example_s3 ''bkt'' \<lparr>columns_set = {}, sample = None\<rparr>
     [''trips/data/a.json.gz'', ''trips/data/d.json.gz'']
   \<and> set (columns (process_folder sorted_list_of_set
        (one_object_s3 [Decoded (JObject [(''id'', JNumber ''1'')]), JSONDecodeError,
                        Decoded (JObject [(''fare'', JNumber ''2'')]),
                        Decoded (JObject [(''id'', JNumber ''3''), (''tip'', JNull)])])
        ''bkt'' ''trips/data/'')) = {''id'', ''fare'', ''tip''}
   \<and> sample_data (process_folder sorted_list_of_set
        (one_object_s3 [Decoded (JObject [(''id'', JNumber ''1'')]), JSONDecodeError,
                        Decoded (JObject [(''fare'', JNumber ''2'')]),
                        Decoded (JObject [(''id'', JNumber ''3''), (''tip'', JNull)])])
        ''bkt'' ''trips/data/'') = Some [(''id'', JNumber ''1'')]
   \<and> set (columns (process_folder sorted_list_of_set
        (one_object_s3 [Decoded (JObject [(''id'', JNumber ''1'')]), OtherException,
                        Decoded (JObject [(''fare'', JNumber ''2'')])])
        ''bkt'' ''trips/data/'')) = {''id''}
   \<and> sample_data (process_folder sorted_list_of_set
        (one_object_s3 [Decoded (JObject [(''id'', JNumber ''1'')]), OtherException,
                        Decoded (JObject [(''fare'', JNumber ''2'')])])
        ''bkt'' ''trips/data/'') = Some [(''id'', JNumber ''1'')]"
proof -
  let ?fc = "\<lparr>columns_set = {}, sample = None\<rparr>"
  let ?d1 = "[(''id'', JNumber ''1'')]"
  let ?d2 = "[(''fare'', JNumber ''2'')]"
  let ?d3 = "[(''id'', JNumber ''3''), (''tip'', JNull)]"
  let ?lines = "[Decoded (JObject ?d1), JSONDecodeError, Decoded (JObject ?d2),
                 Decoded (JObject ?d3)]"
  let ?cut = "[Decoded (JObject ?d1), OtherException, Decoded (JObject ?d2)]"
  have enum: "\<forall>S :: string set. finite S \<longrightarrow> set (sorted_list_of_set S) = S"
    by simp
  have fails: "get_object example_s3 ''bkt'' ''trips/data/b.json.gz'' = GetObjectFails"
    by (simp add: example_s3_def)
  have a: "process_objects example_s3 ''bkt'' ?fc
             [''trips/data/a.json.gz'', ''trips/data/b.json.gz'', ''trips/data/d.json.gz''] =
           process_objects example_s3 ''bkt'' ?fc
             [''trips/data/a.json.gz'', ''trips/data/d.json.gz'']"
    using decode_failures_are_local
      [where fc = ?fc and c = example_s3 and b = "''bkt''" and k = "''trips/data/b.json.gz''"
         and ?ks1.0 = "[''trips/data/a.json.gz'']" and ?ks2.0 = "[''trips/data/d.json.gz'']",
       THEN conjunct2, THEN conjunct2, THEN conjunct1] fails
    by simp
  have pre: "(\<forall>S :: string set. finite S \<longrightarrow> set (sorted_list_of_set S) = S) \<and>
       paginate (one_object_s3 ?lines) ''bkt'' ''trips/data/'' =
         [Some [''trips/data/part-0.json.gz'']] \<and>
       endswith ''trips/data/part-0.json.gz'' ''.json.gz'' \<and>
       get_object (one_object_s3 ?lines) ''bkt'' ''trips/data/part-0.json.gz'' =
         GzipLines (take 1 (three_valid ?d1 ?d2 ?d3) @ JSONDecodeError #
                    drop 1 (three_valid ?d1 ?d2 ?d3))"
    by (simp add: one_object_s3_def endswith_def three_valid_def)
  have b: "set (columns (process_folder sorted_list_of_set (one_object_s3 ?lines)
                  ''bkt'' ''trips/data/'')) = keys ?d1 \<union> keys ?d2 \<union> keys ?d3
           \<and> sample_data (process_folder sorted_list_of_set (one_object_s3 ?lines)
                  ''bkt'' ''trips/data/'') = Some ?d1"
    using decode_failures_are_local
      [where list_of_set = sorted_list_of_set and c = "one_object_s3 ?lines"
         and b = "''bkt''" and f = "''trips/data/''" and k = "''trips/data/part-0.json.gz''"
         and i = 1 and ?d1.0 = ?d1 and ?d2.0 = ?d2 and ?d3.0 = ?d3,
       THEN conjunct2, THEN conjunct2, THEN conjunct2, THEN conjunct2, THEN conjunct2,
       THEN conjunct2] pre
    by blast
  have recs: "decoded_records (one_object_s3 ?cut) ''bkt'' ''trips/data/'' = [?d1]"
    by (simp add: decoded_records_def one_object_s3_def contents_def decoded_object_def
        endswith_def)
  have c: "set (columns (process_folder sorted_list_of_set (one_object_s3 ?cut)
                  ''bkt'' ''trips/data/'')) = keys ?d1
           \<and> sample_data (process_folder sorted_list_of_set (one_object_s3 ?cut)
                  ''bkt'' ''trips/data/'') = Some ?d1"
    using decode_failures_are_local
      [where list_of_set = sorted_list_of_set and c = "one_object_s3 ?cut"
         and b = "''bkt''" and f = "''trips/data/''",
       THEN conjunct2, THEN conjunct2, THEN conjunct2, THEN conjunct2, THEN conjunct2,
       THEN conjunct1] enum
    by (simp add: recs first_of_def)
  show ?thesis
    using a b c by (simp add: keys_def insert_commute)
qed

subsection \<open>The local-file sampler\<close>

lemma last_with_key_Nil [simp]: "last_with_key k [] = None"
  by (simp add: last_with_key_def)

lemma last_with_key_append:
  "last_with_key k (ps @ qs) =
     (case last_with_key k qs of None \<Rightarrow> last_with_key k ps | Some q \<Rightarrow> Some q)"
  by (simp add: last_with_key_def Let_def)

lemma last_with_key_Cons:
  "last_with_key k (p # ps) =
     (case last_with_key k ps of
        None \<Rightarrow> (if relative_key (fst p) (snd p) = k then Some p else None)
      | Some q \<Rightarrow> Some q)"
  by (simp add: last_with_key_def Let_def)

lemma analyze_files_lookup:
  "analyze_files fs dirpath filenames dc0 = Inr dc \<Longrightarrow>
   map_of dc k =
     written fs k (map (\<lambda>file. (dirpath, file)) (filter (\<lambda>file. endswith file ''.csv'') filenames))
       (map_of dc0 k)"
proof (induction filenames arbitrary: dc0)
  case Nil
  then show ?case by (simp add: written_def)
next
  case (Cons fname filenames)
  show ?case
  proof (cases "endswith fname ''.csv''")
    case False
    with Cons show ?thesis by simp
  next
    case True
    from Cons.prems True obtain df r rs where
      rd: "read_csv fs (dirpath @ [fname]) = Inr df" and recs: "df_records df = r # rs"
      and rest: "analyze_files fs dirpath filenames
             (AList.update (relative_key dirpath fname)
                \<lparr>columns = df_columns df, sample_data = Some r\<rparr> dc0) = Inr dc"
      by (cases "df_records (projr (read_csv fs (dirpath @ [fname])))")
         (auto split: sum.splits list.splits)
    have ctx: "context_of fs (dirpath, fname) = Some \<lparr>columns = df_columns df, sample_data = Some r\<rparr>"
      by (simp add: context_of_def rd recs)
    from Cons.IH [OF rest] show ?thesis
      using True ctx
      by (auto simp: written_def last_with_key_Cons update_conv' split: option.splits)
  qed
qed

lemma written_append:
  "written fs k (ps @ qs) init = written fs k qs (written fs k ps init)"
  by (simp add: written_def last_with_key_append split: option.splits)

lemma analyze_dirs_lookup:
  "analyze_dirs fs dirs dc0 = Inr dc \<Longrightarrow>
   map_of dc k =
     written fs k
       (concat (map (\<lambda>(dirpath, filenames).
                    map (\<lambda>file. (dirpath, file))
                      (filter (\<lambda>file. endswith file ''.csv'') filenames)) dirs))
       (map_of dc0 k)"
proof (induction dirs arbitrary: dc0)
  case Nil
  then show ?case by (simp add: written_def)
next
  case (Cons dir dirs)
  obtain dirpath filenames where dir: "dir = (dirpath, filenames)" by (cases dir)
  from Cons.prems dir obtain dc1 where
    first: "analyze_files fs dirpath filenames dc0 = Inr dc1"
    and rest: "analyze_dirs fs dirs dc1 = Inr dc"
    by (auto split: sum.splits)
  from Cons.IH [OF rest] analyze_files_lookup [OF first, of k]
  show ?case by (simp add: dir written_append)
qed

lemma analyze_files_distinct:
  "analyze_files fs dirpath filenames dc0 = Inr dc \<Longrightarrow> distinct (map fst dc0) \<Longrightarrow>
   distinct (map fst dc)"
proof (induction filenames arbitrary: dc0)
  case Nil
  then show ?case by simp
next
  case (Cons fname filenames)
  then show ?case
    by (auto split: if_splits sum.splits list.splits simp: distinct_update)
qed

lemma analyze_dirs_distinct:
  "analyze_dirs fs dirs dc0 = Inr dc \<Longrightarrow> distinct (map fst dc0) \<Longrightarrow> distinct (map fst dc)"
proof (induction dirs arbitrary: dc0)
  case Nil
  then show ?case by simp
next
  case (Cons dir dirs)
  then show ?case
    by (cases dir) (auto split: sum.splits dest: analyze_files_distinct)
qed

lemma example_fs_result:
  "analyze_csv_files example_fs =
     Inr [(''top_level.csv'', \<lparr>columns = [''t''], sample_data = Some [(''t'', ''0'')]\<rparr>),
          (''my_data'', \<lparr>columns = [''u'', ''v''],
                         sample_data = Some [(''u'', ''6''), (''v'', ''7'')]\<rparr>)]"
  by (simp add: analyze_csv_files_def example_fs_def endswith_def relative_key_def
      replace_spaces_def)


text \<open>
  Claim C7. A tabular file below a subdirectory of the root is keyed by the name of the
  top-level subdirectory, spaces replaced by underscores. In the dict that
  \<open>analyze_csv_files\<close> returns the keys are distinct, and the entry under a key is the
  columns and the first row of the last file processed with that key, with nothing of the
  files processed before it: the last write wins and column sets are not merged.
\<close>

theorem csv_last_write_wins:
  "relative_key (d # sub) file = replace_spaces d
   \<and> (analyze_csv_files fs = Inr dc \<longrightarrow>
        distinct (map fst dc) \<and>
        map_of dc k =
          (case last_with_key k (csv_paths fs) of None \<Rightarrow> None | Some p \<Rightarrow> context_of fs p))"
proof (intro conjI impI)
  show "relative_key (d # sub) file = replace_spaces d"
    by (simp add: relative_key_def)
next
  assume "analyze_csv_files fs = Inr dc"
  then show "distinct (map fst dc)"
    using analyze_dirs_distinct [of fs "walk fs" "[]" dc] by (simp add: analyze_csv_files_def)
next
  assume "analyze_csv_files fs = Inr dc"
  then show "map_of dc k =
          (case last_with_key k (csv_paths fs) of None \<Rightarrow> None | Some p \<Rightarrow> context_of fs p)"
    using analyze_dirs_lookup [of fs "walk fs" "[]" dc k]
    by (simp add: analyze_csv_files_def csv_paths_def written_def)
qed

theorem csv_last_write_wins_witness:
  "relative_key [''my data'', ''deep''] ''c.csv'' = ''my_data''
   \<and> analyze_csv_files example_fs =
     Inr [(''top_level.csv'', \<lparr>columns = [''t''], sample_data = Some [(''t'', ''0'')]\<rparr>),
          (''my_data'', \<lparr>columns = [''u'', ''v''],
                         sample_data = Some [(''u'', ''6''), (''v'', ''7'')]\<rparr>)]
   \<and> last_with_key ''my_data'' (csv_paths example_fs) = Some ([''my data'', ''deep''], ''c.csv'')
   \<and> context_of example_fs ([''my data'', ''deep''], ''c.csv'') =
     Some \<lparr>columns = [''u'', ''v''], sample_data = Some [(''u'', ''6''), (''v'', ''7'')]\<rparr>"
proof -
  let ?dc = "[(''top_level.csv'', \<lparr>columns = [''t''], sample_data = Some [(''t'', ''0'')]\<rparr>),
          (''my_data'', \<lparr>columns = [''u'', ''v''],
                         sample_data = Some [(''u'', ''6''), (''v'', ''7'')]\<rparr>)]"
  note inst = csv_last_write_wins [of "''my data''" "[''deep'']" "''c.csv''" example_fs ?dc
      "''my_data''"]
  have key: "relative_key [''my data'', ''deep''] ''c.csv'' = ''my_data''"
    using inst [THEN conjunct1] by (simp add: replace_spaces_def)
  have lw: "last_with_key ''my_data'' (csv_paths example_fs) =
            Some ([''my data'', ''deep''], ''c.csv'')"
    by (simp add: last_with_key_def csv_paths_def example_fs_def endswith_def
        relative_key_def replace_spaces_def)
  have "map_of ?dc ''my_data'' =
        (case last_with_key ''my_data'' (csv_paths example_fs) of
           None \<Rightarrow> None | Some p \<Rightarrow> context_of example_fs p)"
    using inst [THEN conjunct2] example_fs_result by blast
  then have ctx: "context_of example_fs ([''my data'', ''deep''], ''c.csv'') =
     Some \<lparr>columns = [''u'', ''v''], sample_data = Some [(''u'', ''6''), (''v'', ''7'')]\<rparr>"
    by (simp add: lw)
  show ?thesis using key example_fs_result lw ctx by blast
qed

lemma analyze_files_keys:
  "analyze_files fs dirpath filenames dc0 = Inr dc \<Longrightarrow>
   set (map fst dc) =
     set (map fst dc0) \<union>
     (\<lambda>p. relative_key (fst p) (snd p)) `
       set (map (\<lambda>file. (dirpath, file)) (filter (\<lambda>file. endswith file ''.csv'') filenames))"
proof (induction filenames arbitrary: dc0)
  case Nil
  then show ?case by simp
next
  case (Cons fname filenames)
  show ?case
  proof (cases "endswith fname ''.csv''")
    case False
    with Cons show ?thesis by simp
  next
    case True
    from Cons.prems True obtain df r rs where
      rd: "read_csv fs (dirpath @ [fname]) = Inr df" and recs: "df_records df = r # rs"
      and rest: "analyze_files fs dirpath filenames
             (AList.update (relative_key dirpath fname)
                \<lparr>columns = df_columns df, sample_data = Some r\<rparr> dc0) = Inr dc"
      by (cases "df_records (projr (read_csv fs (dirpath @ [fname])))")
         (auto split: sum.splits list.splits)
    from Cons.IH [OF rest] show ?thesis
      using True by (auto simp: dom_update)
  qed
qed

lemma analyze_dirs_keys:
  "analyze_dirs fs dirs dc0 = Inr dc \<Longrightarrow>
   set (map fst dc) =
     set (map fst dc0) \<union>
     (\<lambda>p. relative_key (fst p) (snd p)) `
       set (concat (map (\<lambda>(dirpath, filenames).
                    map (\<lambda>file. (dirpath, file))
                      (filter (\<lambda>file. endswith file ''.csv'') filenames)) dirs))"
proof (induction dirs arbitrary: dc0)
  case Nil
  then show ?case by simp
next
  case (Cons dir dirs)
  obtain dirpath filenames where dir: "dir = (dirpath, filenames)" by (cases dir)
  from Cons.prems dir obtain dc1 where
    first: "analyze_files fs dirpath filenames dc0 = Inr dc1"
    and rest: "analyze_dirs fs dirs dc1 = Inr dc"
    by (auto split: sum.splits)
  from Cons.IH [OF rest] analyze_files_keys [OF first]
  show ?case by (simp add: dir Un_assoc image_Un)
qed

lemma example_fs_paths:
  "csv_paths example_fs =
     [([], ''top level.csv''), ([''my data''], ''a.csv''), ([''my data''], ''b.csv''),
      ([''my data'', ''deep''], ''c.csv'')]"
  by (simp add: csv_paths_def example_fs_def endswith_def)

text \<open>
  Claim C9. The key is the first component of the path below the root, spaces replaced by
  underscores: the keys of the dict that \<open>analyze_csv_files\<close> returns are exactly these
  first components of the tabular files walked. For a tabular file that lies in the root
  itself the first component is the file's own name: the dict has the key made from that
  name, it holds the file's columns and first row when no later file takes the same key, and
  a root that holds just this file gives the dict with that one key.
\<close>

theorem root_file_keyed_by_name:
  "relative_key [] file = replace_spaces file
   \<and> (analyze_csv_files fs = Inr dc \<longrightarrow>
        set (map fst dc) =
          (\<lambda>p. replace_spaces (hd (fst p @ [snd p]))) ` set (csv_paths fs)
        \<and> (([], file) \<in> set (csv_paths fs) \<longrightarrow> replace_spaces file \<in> set (map fst dc))
        \<and> (last_with_key (replace_spaces file) (csv_paths fs) = Some ([], file) \<longrightarrow>
             map_of dc (replace_spaces file) = context_of fs ([], file)))
   \<and> (walk fs = [([], [file])] \<and> endswith file ''.csv'' \<and>
      read_csv fs [file] = Inr df \<and> df_records df = r # rs
      \<longrightarrow> analyze_csv_files fs =
          Inr [(replace_spaces file, \<lparr>columns = df_columns df, sample_data = Some r\<rparr>)])"
proof (intro conjI impI)
  show "relative_key [] file = replace_spaces file"
    by (simp add: relative_key_def)
next
  assume "analyze_csv_files fs = Inr dc"
  then show ks: "set (map fst dc) =
          (\<lambda>p. replace_spaces (hd (fst p @ [snd p]))) ` set (csv_paths fs)"
    using analyze_dirs_keys [of fs "walk fs" "[]" dc]
    by (simp add: analyze_csv_files_def csv_paths_def relative_key_def)
  assume "([], file) \<in> set (csv_paths fs)"
  then show "replace_spaces file \<in> set (map fst dc)"
    unfolding ks by force
next
  assume "analyze_csv_files fs = Inr dc"
    and "last_with_key (replace_spaces file) (csv_paths fs) = Some ([], file)"
  then show "map_of dc (replace_spaces file) = context_of fs ([], file)"
    using analyze_dirs_lookup [of fs "walk fs" "[]" dc "replace_spaces file"]
    by (simp add: analyze_csv_files_def csv_paths_def written_def)
next
  assume "walk fs = [([], [file])] \<and> endswith file ''.csv'' \<and>
      read_csv fs [file] = Inr df \<and> df_records df = r # rs"
  then show "analyze_csv_files fs =
          Inr [(replace_spaces file, \<lparr>columns = df_columns df, sample_data = Some r\<rparr>)]"
    by (simp add: relative_key_def analyze_csv_files_def)
qed


theorem root_file_keyed_by_name_witness:
  "relative_key [] ''fare table.csv'' = ''fare_table.csv''
   \<and> analyze_csv_files root_file_fs =
     Inr [(''fare_table.csv'',
           \<lparr>columns = [''id'', ''fare''],
            sample_data = Some [(''id'', ''1''), (''fare'', ''7.5'')]\<rparr>)]
   \<and> analyze_csv_files example_fs =
     Inr [(''top_level.csv'', \<lparr>columns = [''t''], sample_data = Some [(''t'', ''0'')]\<rparr>),
          (''my_data'', \<lparr>columns = [''u'', ''v''],
                         sample_data = Some [(''u'', ''6''), (''v'', ''7'')]\<rparr>)]
   \<and> (\<lambda>p. replace_spaces (hd (fst p @ [snd p]))) ` set (csv_paths example_fs) =
     {''top_level.csv'', ''my_data''}
   \<and> context_of example_fs ([], ''top level.csv'') =
     Some \<lparr>columns = [''t''], sample_data = Some [(''t'', ''0'')]\<rparr>"
proof -
  let ?dc = "[(''top_level.csv'', \<lparr>columns = [''t''], sample_data = Some [(''t'', ''0'')]\<rparr>),
          (''my_data'', \<lparr>columns = [''u'', ''v''],
                         sample_data = Some [(''u'', ''6''), (''v'', ''7'')]\<rparr>)]"
  note inst = root_file_keyed_by_name [of "''fare table.csv''" root_file_fs _
      "\<lparr>df_columns = [''id'', ''fare''],
        df_records = [[(''id'', ''1''), (''fare'', ''7.5'')]]\<rparr>"
      "[(''id'', ''1''), (''fare'', ''7.5'')]" "[]"]
  have res: "analyze_csv_files example_fs = Inr ?dc"
    by (simp add: analyze_csv_files_def example_fs_def endswith_def relative_key_def
        replace_spaces_def)
  note inst2 = root_file_keyed_by_name [of "''top level.csv''" example_fs ?dc,
      THEN conjunct2, THEN conjunct1, rule_format, OF res]
  have pre: "walk root_file_fs = [([], [''fare table.csv''])] \<and>
      endswith ''fare table.csv'' ''.csv'' \<and>
      read_csv root_file_fs [''fare table.csv''] =
        Inr \<lparr>df_columns = [''id'', ''fare''],
             df_records = [[(''id'', ''1''), (''fare'', ''7.5'')]]\<rparr> \<and>
      df_records \<lparr>df_columns = [''id'', ''fare''],
                  df_records = [[(''id'', ''1''), (''fare'', ''7.5'')]]\<rparr> =
        [(''id'', ''1''), (''fare'', ''7.5'')] # []"
    by (simp add: root_file_fs_def endswith_def)
  have a: "relative_key [] ''fare table.csv'' = ''fare_table.csv''"
    using inst [THEN conjunct1] by (simp add: replace_spaces_def)
  have b: "analyze_csv_files root_file_fs =
     Inr [(''fare_table.csv'',
           \<lparr>columns = [''id'', ''fare''],
            sample_data = Some [(''id'', ''1''), (''fare'', ''7.5'')]\<rparr>)]"
    using inst [THEN conjunct2, THEN conjunct2] pre by (simp add: replace_spaces_def)
  have c: "(\<lambda>p. replace_spaces (hd (fst p @ [snd p]))) ` set (csv_paths example_fs) =
     {''top_level.csv'', ''my_data''}"
    using inst2 [THEN conjunct1] by simp
  have lw: "last_with_key (replace_spaces ''top level.csv'') (csv_paths example_fs) =
            Some ([], ''top level.csv'')"
    by (simp add: example_fs_paths last_with_key_def relative_key_def replace_spaces_def)
  have d: "context_of example_fs ([], ''top level.csv'') =
     Some \<lparr>columns = [''t''], sample_data = Some [(''t'', ''0'')]\<rparr>"
    using inst2 [THEN conjunct2, THEN conjunct2, rule_format, OF lw]
    by (simp add: replace_spaces_def)
  show ?thesis using a b c d res by blast
qed

end
